theory Spec2Isabelle
  imports Complex_Main "HOL-Library.Sublist"
begin

section \<open>Repository normalizer\<close>

text \<open>
  Both orchestrators (\<^verbatim>\<open>validateGithubRepo\<close>) and the worker agent
  (\<^verbatim>\<open>deployProject\<close>) normalise a repository reference with the same chain
  \<^verbatim>\<open>
  repoUrl.replace(/^(https:\/\/github\.com\/)+/, '')
         .replace(/\.git$/, '')
         .replace(/^https:\/\/github\.com\//, '')
  \<close>
  and the worker re-forms the clone URL as
  \<^verbatim>\<open>https://github.com/${normalizedUrl}.git\<close>.
  Neither regular expression carries a flag, so \<^verbatim>\<open>^\<close> and \<^verbatim>\<open>$\<close> only match at the
  two ends of the input, and \<^verbatim>\<open>replace\<close> rewrites the first (here: only possible) match.
\<close>

definition githubPrefix :: string where
  "githubPrefix = ''https://github.com/''"

definition gitSuffix :: string where
  "gitSuffix = ''.git''"

text \<open>\<^verbatim>\<open>.replace(/^(https:\/\/github\.com\/)+/, '')\<close>: the greedy group removes every
  leading copy of the prefix.\<close>

function stripLeadingPrefixes :: "string \<Rightarrow> string" where
  "stripLeadingPrefixes s =
     (if prefix githubPrefix s
      then stripLeadingPrefixes (drop (length githubPrefix) s)
      else s)"
  by pat_completeness auto
termination
  by (relation "measure length") (auto simp: githubPrefix_def prefix_def)

declare stripLeadingPrefixes.simps [simp del]

text \<open>\<^verbatim>\<open>.replace(/\.git$/, '')\<close>: one trailing suffix is removed.\<close>

definition stripGitSuffix :: "string \<Rightarrow> string" where
  "stripGitSuffix s =
     (if suffix gitSuffix s then take (length s - length gitSuffix) s else s)"

text \<open>\<^verbatim>\<open>.replace(/^https:\/\/github\.com\//, '')\<close>: one leading prefix is removed.\<close>

definition stripOnePrefix :: "string \<Rightarrow> string" where
  "stripOnePrefix s =
     (if prefix githubPrefix s then drop (length githubPrefix) s else s)"

definition normalizedUrl :: "string \<Rightarrow> string" where
  "normalizedUrl repoUrl = stripOnePrefix (stripGitSuffix (stripLeadingPrefixes repoUrl))"

text \<open>The URL the worker clones: \<^verbatim>\<open>https://github.com/${normalizedUrl}.git\<close>.\<close>

definition canonicalCloneUrl :: "string \<Rightarrow> string" where
  "canonicalCloneUrl repoUrl = githubPrefix @ normalizedUrl repoUrl @ gitSuffix"


section \<open>Data model\<close>

text \<open>
  The repository holds two orchestrators with the same class and method names: one keeps
  its entities in a Redis key-value store, the other in MongoDB collections through
  Mongoose schemas. Both are embedded; where their methods share a name the embedding
  carries the suffix \<open>_redis\<close> or \<open>_mongo\<close>. The entities have the same fields
  in both, so one record type serves each entity. Record fields carry a prefix
  (\<open>w_\<close> worker, \<open>d_\<close> deployment, \<open>a_\<close> an entry of \<^verbatim>\<open>deployment.workers\<close>,
  \<open>r_\<close> replica, \<open>su_\<close> status update, \<open>rq_\<close> deploy request) because the source
  reuses \<^verbatim>\<open>id\<close> and \<^verbatim>\<open>status\<close> in every object. Identifiers (Redis counters and
  Mongo ObjectIds alike) are natural numbers, timestamps are integers (milliseconds, as
  \<^verbatim>\<open>Date.now()\<close> counts them), percentages are rationals, and status values are the
  strings of the source.
\<close>

record usage =
  cpuUsage :: rat
  memoryUsage :: rat

record load = usage +
  runningContainers :: nat

record worker =
  w_id :: nat
  w_hostname :: string
  w_socketId :: string
  w_status :: string
  w_lastHeartbeat :: int
  w_currentLoad :: "load option"

record assignment =
  a_workerId :: nat
  a_replicaId :: nat
  a_status :: string

record deployment =
  d_id :: nat
  d_githubRepo :: string
  d_userName :: string
  d_minReplicas :: int
  d_maxReplicas :: int
  d_status :: string
  d_lastScaleUp :: "int option"
  d_lastScaleDown :: "int option"
  d_workers :: "assignment list"
  d_createdAt :: int

record replica =
  r_id :: nat
  r_deploymentId :: nat
  r_status :: string
  r_replicaNumber :: nat
  r_metrics :: "usage option"
  r_createdAt :: "int option"

text \<open>The \<^verbatim>\<open>deploymentStatus\<close> event a worker sends, and the body of \<^verbatim>\<open>POST /deploy\<close>
  (an absent \<^verbatim>\<open>minReplicas\<close> or \<^verbatim>\<open>maxReplicas\<close> is \<open>None\<close>).\<close>

record statusUpdate =
  su_workerId :: nat
  su_deploymentId :: nat
  su_replicaId :: nat
  su_status :: string
  su_metrics :: "usage option"

record deploymentRequest =
  rq_githubRepo :: string
  rq_userName :: string
  rq_minReplicas :: "int option"
  rq_maxReplicas :: "int option"

text \<open>The part of the code host's answer that the orchestrator reads.\<close>

record repoInfo =
  clone_url :: string

text \<open>What an orchestrator sends to a socket: the payloads of \<^verbatim>\<open>emit\<close>, fields in the
  order of the source's object literals.\<close>

datatype payload =
    WorkerRegistered nat
      \<comment> \<open>\<^verbatim>\<open>{ id }\<close>\<close>
  | ErrorMessage string
  | DeployRepository string string nat nat int
      \<comment> \<open>\<^verbatim>\<open>{ deploymentDir, repoUrl, replicaId, deploymentId, deploymentTime }\<close>\<close>
  | DeploymentTask nat nat string int
      \<comment> \<open>\<^verbatim>\<open>{ deploymentId, replicaId, githubRepo, deploymentTime }\<close>\<close>
  | RemoveReplica nat nat
      \<comment> \<open>\<^verbatim>\<open>{ deploymentId, replicaId }\<close>\<close>

datatype error =
    NoAvailableWorkers
      \<comment> \<open>\<^verbatim>\<open>new Error('No available workers found')\<close>\<close>
  | InvalidRepository
      \<comment> \<open>\<^verbatim>\<open>new Error('Invalid repository')\<close>\<close>
  | InsufficientWorkers int nat
      \<comment> \<open>\<^verbatim>\<open>Insufficient active workers. Required: ..., Available: ...\<close>\<close>
  | TypeError
      \<comment> \<open>a property read on \<^verbatim>\<open>null\<close> or \<^verbatim>\<open>undefined\<close>\<close>
  | StoreFailure
      \<comment> \<open>a rejected store operation\<close>

text \<open>The lines the scaling controller and \<^verbatim>\<open>distributeToWorkers\<close> write to the
  console (the other informational lines of the source are not modelled).\<close>

datatype logLine =
    LogAverageCpu nat rat
  | LogScalingUp nat
  | LogScalingDown nat
  | LogErrorChecking nat error
  | LogErrorScalingUp nat error
  | LogWorkerNotFound nat
  | LogTaskSent string
  | LogErrorDistribution error

text \<open>An orchestrator: its store, the \<^verbatim>\<open>workerId\<close> it attaches to each socket, the
  messages it has emitted (socket id, event name, payload), its console and its
  \<^verbatim>\<open>deploymentPath\<close>.\<close>

record 'db orchestrator =
  db :: 'db
  socketWorkerId :: "string \<rightharpoonup> nat"
  emitted :: "(string \<times> string \<times> payload) list"
  console :: "logLine list"
  deploymentPath :: string

definition emit :: "string \<Rightarrow> string \<Rightarrow> payload \<Rightarrow> 'db orchestrator \<Rightarrow> 'db orchestrator" where
  "emit socketId event p s = s\<lparr>emitted := emitted s @ [(socketId, event, p)]\<rparr>"

definition consoleLog :: "logLine \<Rightarrow> 'db orchestrator \<Rightarrow> 'db orchestrator" where
  "consoleLog l s = s\<lparr>console := console s @ [l]\<rparr>"

text \<open>\<^verbatim>\<open>this.scalingSettings\<close>, the same in both orchestrators.\<close>

definition cpuThreshold :: rat where
  "cpuThreshold = 70"

definition scaleUpCooldown :: int where
  "scaleUpCooldown = 300000"

definition scaleDownCooldown :: int where
  "scaleDownCooldown = 600000"

text \<open>The average load of \<^verbatim>\<open>checkAndScale\<close> (identical in both orchestrators):
  \<^verbatim>\<open>
  let totalCpuLoad = 0;
  activeReplicas.forEach(replica => { totalCpuLoad += replica.metrics?.cpuUsage || 0; });
  const avgCpuLoad = activeReplicas.length > 0 ? totalCpuLoad / activeReplicas.length : 0;
  \<close>
  The source adds and divides IEEE 754 doubles, rounding after each operation; the embedding
  computes the sum and the quotient exactly. The two agree whenever every partial sum and
  the quotient are representable, as for the whole-number loads of the example stores
  below. They can differ by a rounding step otherwise: for the loads \<open>70\<close> and
  \<open>70.00000000000001\<close> the source obtains exactly \<open>70\<close>, which does not exceed the
  threshold, where the exact mean does. Statements about the comparison of the average
  with a threshold are therefore statements about exactly computed averages.\<close>

definition cpuOrZero :: "replica \<Rightarrow> rat" where
  "cpuOrZero replica = (case r_metrics replica of None \<Rightarrow> 0 | Some m \<Rightarrow> cpuUsage m)"

definition totalCpuLoad :: "replica list \<Rightarrow> rat" where
  "totalCpuLoad activeReplicas =
     foldl (\<lambda>total replica. total + cpuOrZero replica) 0 activeReplicas"

definition avgCpuLoad :: "replica list \<Rightarrow> rat" where
  "avgCpuLoad activeReplicas =
     (if length activeReplicas > 0
      then totalCpuLoad activeReplicas / of_nat (length activeReplicas)
      else 0)"

text \<open>\<^verbatim>\<open>Array.prototype.findIndex\<close> (\<open>None\<close> for \<^verbatim>\<open>-1\<close>) and
  \<^verbatim>\<open>Array.prototype.slice(0, n)\<close>, whose negative \<open>n\<close> counts from the end.\<close>

fun findIndex :: "('a \<Rightarrow> bool) \<Rightarrow> 'a list \<Rightarrow> nat option" where
  "findIndex P [] = None"
| "findIndex P (x # xs) =
     (if P x then Some 0 else map_option Suc (findIndex P xs))"

definition slice0 :: "'a list \<Rightarrow> int \<Rightarrow> 'a list" where
  "slice0 xs n =
     (if n < 0 then take (nat (int (length xs) + n)) xs else take (nat n) xs)"

text \<open>A number inside a template literal prints in decimal.\<close>

definition digitChar :: "nat \<Rightarrow> char" where
  "digitChar n = ''0123456789'' ! n"

function decimal :: "nat \<Rightarrow> string" where
  "decimal n =
     (if n < 10 then [digitChar n] else decimal (n div 10) @ [digitChar (n mod 10)])"
  by pat_completeness auto
termination
  by (relation "measure (\<lambda>n. n)") auto

declare decimal.simps [simp del]

text \<open>\<^verbatim>\<open>`${this.deploymentPath}/${deployment.id}_${workerRef.replicaId}`\<close>. Over Redis
  the deployment id is a counter value and is printed in decimal, as here. Over MongoDB
  \<^verbatim>\<open>deployment.id\<close> is the 24 hexadecimal digits of the ObjectId; the embedding numbers
  the ObjectIds and prints the number in decimal, so that for MongoDB only the text of the
  directory name differs from the source, not which deployment and replica it names.\<close>

definition deploymentDir :: "string \<Rightarrow> nat \<Rightarrow> nat \<Rightarrow> string" where
  "deploymentDir path deploymentId replicaId =
     path @ ''/'' @ decimal deploymentId @ ''_'' @ decimal replicaId"

text \<open>\<^verbatim>\<open>validateGithubRepo\<close> (identical in both orchestrators). The code host is a
  parameter: \<open>api\<close> maps the normalised reference to the body of the answer of
  \<^verbatim>\<open>https://api.github.com/repos/${normalizedUrl}\<close>, \<open>None\<close> when the request
  throws, which the method's \<^verbatim>\<open>catch\<close> turns into \<^verbatim>\<open>null\<close>.\<close>

definition validateGithubRepo :: "(string \<Rightarrow> repoInfo option) \<Rightarrow> string \<Rightarrow> repoInfo option" where
  "validateGithubRepo api repoUrl = api (normalizedUrl repoUrl)"

text \<open>
  \<^verbatim>\<open>distributeToWorkers\<close> has the same body in both orchestrators up to the store calls,
  which are parameters here: \<open>lookup\<close> is \<^verbatim>\<open>redis.get\<close> plus \<^verbatim>\<open>JSON.parse\<close>,
  respectively \<^verbatim>\<open>Worker.findById\<close> (\<open>Inl\<close> when the call rejects), and \<open>save\<close>
  writes the deployment back.
  \<^verbatim>\<open>
  try {
      for (const workerRef of deployment.workers) {
          const worker = <lookup workerRef.workerId>;
          if (!worker) { console.error(`Worker not found: ...`); continue; }
          const deploymentDir = `${this.deploymentPath}/${deployment.id}_${workerRef.replicaId}`;
          this.io.to(worker.socketId).emit('deployRepository', { deploymentDir,
              repoUrl: repoInfo.clone_url, replicaId: workerRef.replicaId,
              deploymentId: deployment.id, deploymentTime: new Date().toISOString() });
          console.log(`... Deployment task sent to worker:`, worker.hostname);
      }
      deployment.status = 'active';  <save>
  } catch (error) {
      console.error('Error during deployment distribution:', error);
      deployment.status = 'failed';  <save>
      throw error;
  }
  \<close>
  The loop returns the error that interrupted it, if any.
\<close>

fun dispatchLoop ::
  "(nat \<Rightarrow> error + worker option) \<Rightarrow> deployment \<Rightarrow> repoInfo \<Rightarrow> int \<Rightarrow>
   assignment list \<Rightarrow> 'db orchestrator \<Rightarrow> error option \<times> 'db orchestrator" where
  "dispatchLoop lookup deployment repoInfo now [] s = (None, s)"
| "dispatchLoop lookup deployment repoInfo now (workerRef # rest) s =
     (case lookup (a_workerId workerRef) of
        Inl e \<Rightarrow> (Some e, s)
      | Inr None \<Rightarrow>
          dispatchLoop lookup deployment repoInfo now rest
            (consoleLog (LogWorkerNotFound (a_workerId workerRef)) s)
      | Inr (Some worker) \<Rightarrow>
          dispatchLoop lookup deployment repoInfo now rest
            (consoleLog (LogTaskSent (w_hostname worker))
              (emit (w_socketId worker) ''deployRepository''
                (DeployRepository
                  (deploymentDir (deploymentPath s) (d_id deployment) (a_replicaId workerRef))
                  (clone_url repoInfo) (a_replicaId workerRef) (d_id deployment) now)
                s)))"

definition distributeToWorkers ::
  "(nat \<Rightarrow> error + worker option) \<Rightarrow> (deployment \<Rightarrow> 'db \<Rightarrow> 'db) \<Rightarrow>
   'db orchestrator \<Rightarrow> deployment \<Rightarrow> repoInfo \<Rightarrow> int \<Rightarrow>
   (error + deployment) \<times> 'db orchestrator" where
  "distributeToWorkers lookup save s deployment repoInfo now =
     (case dispatchLoop lookup deployment repoInfo now (d_workers deployment) s of
        (None, s1) \<Rightarrow>
          (let deployment1 = deployment\<lparr>d_status := ''active''\<rparr>
           in (Inr deployment1, s1\<lparr>db := save deployment1 (db s1)\<rparr>))
      | (Some e, s1) \<Rightarrow>
          (let s2 = consoleLog (LogErrorDistribution e) s1;
               deployment1 = deployment\<lparr>d_status := ''failed''\<rparr>
           in (Inl e, s2\<lparr>db := save deployment1 (db s2)\<rparr>)))"


section \<open>The orchestrator over Redis\<close>

text \<open>
  The store: the counters \<^verbatim>\<open>counter:{type}\<close>, the entities under \<^verbatim>\<open>worker:{id}\<close>,
  \<^verbatim>\<open>deployment:{id}\<close> and \<^verbatim>\<open>replica:{id}\<close> (the JSON text is kept as the parsed
  entity), and the sets \<^verbatim>\<open>workers\<close>, \<^verbatim>\<open>deployments\<close> and
  \<^verbatim>\<open>deployment:{id}:replicas\<close>. A set is a list without repetition in insertion order;
  \<^verbatim>\<open>smembers\<close> returns it in that order.
\<close>

record redis =
  counter :: "string \<Rightarrow> nat"
  workerKey :: "nat \<rightharpoonup> worker"
  deploymentKey :: "nat \<rightharpoonup> deployment"
  replicaKey :: "nat \<rightharpoonup> replica"
  workersSet :: "nat list"
  deploymentsSet :: "nat list"
  replicasSet :: "nat \<Rightarrow> nat list"

definition sadd :: "nat \<Rightarrow> nat list \<Rightarrow> nat list" where
  "sadd x xs = (if x \<in> set xs then xs else xs @ [x])"

definition srem :: "nat \<Rightarrow> nat list \<Rightarrow> nat list" where
  "srem x xs = removeAll x xs"

text \<open>\<^verbatim>\<open>getNextId(type)\<close> is \<^verbatim>\<open>redis.incr(`counter:${type}`)\<close>.\<close>

definition getNextId :: "string \<Rightarrow> redis \<Rightarrow> nat \<times> redis" where
  "getNextId type r =
     (let n = counter r type + 1 in (n, r\<lparr>counter := (counter r)(type := n)\<rparr>))"

definition setWorker :: "nat \<Rightarrow> worker \<Rightarrow> redis \<Rightarrow> redis" where
  "setWorker k w r = r\<lparr>workerKey := (workerKey r)(k \<mapsto> w)\<rparr>"

definition setDeployment :: "nat \<Rightarrow> deployment \<Rightarrow> redis \<Rightarrow> redis" where
  "setDeployment k d r = r\<lparr>deploymentKey := (deploymentKey r)(k \<mapsto> d)\<rparr>"

definition setReplica :: "nat \<Rightarrow> replica \<Rightarrow> redis \<Rightarrow> redis" where
  "setReplica k x r = r\<lparr>replicaKey := (replicaKey r)(k \<mapsto> x)\<rparr>"

definition delWorker :: "nat \<Rightarrow> redis \<Rightarrow> redis" where
  "delWorker k r = r\<lparr>workerKey := (workerKey r)(k := None)\<rparr>"

definition delReplica :: "nat \<Rightarrow> redis \<Rightarrow> redis" where
  "delReplica k r = r\<lparr>replicaKey := (replicaKey r)(k := None)\<rparr>"

definition saddReplicas :: "nat \<Rightarrow> nat \<Rightarrow> redis \<Rightarrow> redis" where
  "saddReplicas deploymentId x r =
     r\<lparr>replicasSet := (replicasSet r)(deploymentId := sadd x (replicasSet r deploymentId))\<rparr>"

definition sremReplicas :: "nat \<Rightarrow> nat \<Rightarrow> redis \<Rightarrow> redis" where
  "sremReplicas deploymentId x r =
     r\<lparr>replicasSet := (replicasSet r)(deploymentId := srem x (replicasSet r deploymentId))\<rparr>"

text \<open>
  \<^verbatim>\<open>findAvailableWorker\<close>:
  \<^verbatim>\<open>
  for (const workerId of workers) {
      const workerData = await this.redis.get(`worker:${workerId}`);
      if (workerData) {
          const worker = JSON.parse(workerData);
          if (worker.status === 'active' && worker.currentLoad.cpuUsage < 80) return worker;
      }
  }
  return null;
  \<close>
  A worker that has registered and not yet reported its status has no
  \<^verbatim>\<open>currentLoad\<close>, and \<^verbatim>\<open>worker.currentLoad.cpuUsage\<close> throws a TypeError on it.
\<close>

fun findAvailableWorkerIn :: "redis \<Rightarrow> nat list \<Rightarrow> error + worker option" where
  "findAvailableWorkerIn r [] = Inr None"
| "findAvailableWorkerIn r (workerId # rest) =
     (case workerKey r workerId of
        None \<Rightarrow> findAvailableWorkerIn r rest
      | Some worker \<Rightarrow>
          if w_status worker = ''active''
          then (case w_currentLoad worker of
                  None \<Rightarrow> Inl TypeError
                | Some l \<Rightarrow>
                    if cpuUsage l < 80 then Inr (Some worker)
                    else findAvailableWorkerIn r rest)
          else findAvailableWorkerIn r rest)"

definition findAvailableWorker_redis :: "redis \<Rightarrow> error + worker option" where
  "findAvailableWorker_redis r = findAvailableWorkerIn r (workersSet r)"

text \<open>
  \<^verbatim>\<open>scaleUp\<close>. Every statement is inside \<^verbatim>\<open>try\<close>; the \<^verbatim>\<open>catch\<close> logs the error
  and returns. The clock is read once per handler: \<open>now\<close> stands for every
  \<^verbatim>\<open>Date.now()\<close> and \<^verbatim>\<open>new Date()\<close> of one call.
\<close>

definition scaleUp_redis :: "redis orchestrator \<Rightarrow> deployment \<Rightarrow> int \<Rightarrow> redis orchestrator" where
  "scaleUp_redis s0 deployment now =
     (let s = consoleLog (LogScalingUp (d_id deployment)) s0 in
      case findAvailableWorker_redis (db s) of
        Inl e \<Rightarrow> consoleLog (LogErrorScalingUp (d_id deployment) e) s
      | Inr None \<Rightarrow> consoleLog (LogErrorScalingUp (d_id deployment) NoAvailableWorkers) s
      | Inr (Some worker) \<Rightarrow>
          (case getNextId ''replica'' (db s) of
             (replicaId, r1) \<Rightarrow>
               (let replica = \<lparr>r_id = replicaId, r_deploymentId = d_id deployment,
                                r_status = ''pending'',
                                r_replicaNumber = length (d_workers deployment) + 1,
                                r_metrics = None, r_createdAt = None\<rparr>;
                    r2 = saddReplicas (d_id deployment) replicaId (setReplica replicaId replica r1);
                    deployment1 = deployment
                      \<lparr>d_lastScaleUp := Some now,
                       d_workers := d_workers deployment @
                         [\<lparr>a_workerId = w_id worker, a_replicaId = r_replicaNumber replica,
                           a_status = ''pending''\<rparr>]\<rparr>;
                    r3 = setDeployment (d_id deployment) deployment1 r2
                in emit (w_socketId worker) ''deploymentTask''
                     (DeploymentTask (d_id deployment) (r_replicaNumber replica)
                        (d_githubRepo deployment) now)
                     (s\<lparr>db := r3\<rparr>))))"

text \<open>
  \<^verbatim>\<open>scaleDown\<close>:
  \<^verbatim>\<open>
  const lastWorker = deployment.workers[deployment.workers.length - 1];
  if (!lastWorker) return;
  const workerData = await this.redis.get(`worker:${lastWorker.workerId}`);
  if (!workerData) return;
  const worker = JSON.parse(workerData);
  this.io.to(worker.socketId).emit('removeReplica',
      { deploymentId: deployment.id, replicaId: lastWorker.replicaId });
  deployment.lastScaleDown = Date.now();
  deployment.workers.pop();
  await this.redis.set(`deployment:${deployment.id}`, JSON.stringify(deployment));
  await this.redis.srem(`deployment:${deployment.id}:replicas`, lastWorker.replicaId);
  await this.redis.del(`replica:${lastWorker.replicaId}`);
  \<close>
\<close>

definition scaleDown_redis :: "redis orchestrator \<Rightarrow> deployment \<Rightarrow> int \<Rightarrow> redis orchestrator" where
  "scaleDown_redis s0 deployment now =
     (let s = consoleLog (LogScalingDown (d_id deployment)) s0 in
      if d_workers deployment = [] then s
      else
        (let lastWorker = last (d_workers deployment) in
         case workerKey (db s) (a_workerId lastWorker) of
           None \<Rightarrow> s
         | Some worker \<Rightarrow>
             (let s1 = emit (w_socketId worker) ''removeReplica''
                         (RemoveReplica (d_id deployment) (a_replicaId lastWorker)) s;
                  deployment1 = deployment
                    \<lparr>d_lastScaleDown := Some now,
                     d_workers := butlast (d_workers deployment)\<rparr>;
                  r1 = setDeployment (d_id deployment) deployment1 (db s1);
                  r2 = sremReplicas (d_id deployment) (a_replicaId lastWorker) r1;
                  r3 = delReplica (a_replicaId lastWorker) r2
              in s1\<lparr>db := r3\<rparr>)))"

text \<open>
  \<^verbatim>\<open>checkAndScale\<close>. \<^verbatim>\<open>redis.get\<close> answers \<^verbatim>\<open>null\<close> for a key that does not
  exist, \<^verbatim>\<open>JSON.parse(null)\<close> is \<^verbatim>\<open>null\<close>, and the filter's \<^verbatim>\<open>r.status\<close> then
  throws a TypeError, which the \<^verbatim>\<open>catch\<close> of the method logs. The number
  \<^verbatim>\<open>deployment.lastScaleUp\<close> is tested by \<^verbatim>\<open>!deployment.lastScaleUp\<close>, true of an
  absent stamp and of the stamp \<open>0\<close>.
\<close>

definition cooldownOver_redis :: "int option \<Rightarrow> int \<Rightarrow> int \<Rightarrow> bool" where
  "cooldownOver_redis lastScale now cooldown =
     (case lastScale of None \<Rightarrow> True | Some t \<Rightarrow> t = 0 \<or> now - t > cooldown)"

definition checkAndScale_redis :: "redis orchestrator \<Rightarrow> deployment \<Rightarrow> int \<Rightarrow> redis orchestrator" where
  "checkAndScale_redis s deployment now =
     (let replicaIds = replicasSet (db s) (d_id deployment);
          replicas = map (replicaKey (db s)) replicaIds
      in case those replicas of
           None \<Rightarrow> consoleLog (LogErrorChecking (d_id deployment) TypeError) s
         | Some parsed \<Rightarrow>
             (let activeReplicas = filter (\<lambda>r. r_status r = ''active'') parsed;
                  avg = avgCpuLoad activeReplicas;
                  s1 = consoleLog (LogAverageCpu (d_id deployment) avg) s
              in if avg > cpuThreshold \<and>
                    int (length replicas) < d_maxReplicas deployment \<and>
                    cooldownOver_redis (d_lastScaleUp deployment) now scaleUpCooldown
                 then scaleUp_redis s1 deployment now
                 else if avg < cpuThreshold / 2 \<and>
                    int (length replicas) > d_minReplicas deployment \<and>
                    cooldownOver_redis (d_lastScaleDown deployment) now scaleDownCooldown
                 then scaleDown_redis s1 deployment now
                 else s1))"

text \<open>
  One firing of the timer of \<^verbatim>\<open>startScalingMonitor\<close>:
  \<^verbatim>\<open>
  const deploymentIds = await this.redis.smembers('deployments');
  for (const deploymentId of deploymentIds) {
      const deployment = await this.getDeployment(deploymentId);
      if (deployment && deployment.status === 'active') await this.checkAndScale(deployment);
  }
  \<close>
\<close>

definition getDeployment :: "redis \<Rightarrow> nat \<Rightarrow> deployment option" where
  "getDeployment r deploymentId = deploymentKey r deploymentId"

fun scalingMonitorLoop_redis :: "int \<Rightarrow> nat list \<Rightarrow> redis orchestrator \<Rightarrow> redis orchestrator" where
  "scalingMonitorLoop_redis now [] s = s"
| "scalingMonitorLoop_redis now (deploymentId # rest) s =
     scalingMonitorLoop_redis now rest
       (case getDeployment (db s) deploymentId of
          None \<Rightarrow> s
        | Some deployment \<Rightarrow>
            if d_status deployment = ''active'' then checkAndScale_redis s deployment now
            else s)"

definition scalingMonitor_redis :: "redis orchestrator \<Rightarrow> int \<Rightarrow> redis orchestrator" where
  "scalingMonitor_redis s now = scalingMonitorLoop_redis now (deploymentsSet (db s)) s"

text \<open>
  The \<^verbatim>\<open>registerWorker\<close> and \<^verbatim>\<open>disconnect\<close> handlers of one socket:
  \<^verbatim>\<open>
  const workerId = await this.getNextId('worker');
  const worker = { id: workerId, hostname: workerData.hostname, socketId: socket.id,
                   status: 'active', lastHeartbeat: Date.now() };
  await this.redis.set(`worker:${workerId}`, JSON.stringify(worker));
  await this.redis.sadd('workers', workerId);
  socket.workerId = workerId;
  socket.emit('workerRegistered', { id: workerId });
  \<close>
  and
  \<^verbatim>\<open>
  if (socket.workerId) {
      await this.redis.srem('workers', socket.workerId);
      await this.redis.del(`worker:${socket.workerId}`);
  }
  \<close>
  (a counter never issues \<open>0\<close>, so \<^verbatim>\<open>socket.workerId\<close> is truthy once set).
\<close>

definition registerWorker_redis ::
  "redis orchestrator \<Rightarrow> string \<Rightarrow> string \<Rightarrow> int \<Rightarrow> redis orchestrator" where
  "registerWorker_redis s socketId hostname now =
     (case getNextId ''worker'' (db s) of
        (workerId, r1) \<Rightarrow>
          (let worker = \<lparr>w_id = workerId, w_hostname = hostname, w_socketId = socketId,
                          w_status = ''active'', w_lastHeartbeat = now,
                          w_currentLoad = None\<rparr>;
               r2 = setWorker workerId worker r1;
               r3 = r2\<lparr>workersSet := sadd workerId (workersSet r2)\<rparr>
           in emit socketId ''workerRegistered'' (WorkerRegistered workerId)
                (s\<lparr>db := r3, socketWorkerId := (socketWorkerId s)(socketId \<mapsto> workerId)\<rparr>)))"

definition disconnect_redis :: "redis orchestrator \<Rightarrow> string \<Rightarrow> redis orchestrator" where
  "disconnect_redis s socketId =
     (case socketWorkerId s socketId of
        None \<Rightarrow> s
      | Some workerId \<Rightarrow>
          (let r1 = (db s)\<lparr>workersSet := srem workerId (workersSet (db s))\<rparr>
           in s\<lparr>db := delWorker workerId r1\<rparr>))"

text \<open>
  The \<^verbatim>\<open>deploymentStatus\<close> handler:
  \<^verbatim>\<open>
  const deployment = await this.getDeployment(statusUpdate.deploymentId);
  if (deployment) {
      const workerIndex = deployment.workers.findIndex(
          w => w.replicaId.toString() === statusUpdate.replicaId.toString());
      if (workerIndex !== -1) {
          deployment.workers[workerIndex].status = statusUpdate.status;
          await this.redis.set(`deployment:${statusUpdate.deploymentId}`, JSON.stringify(deployment));
      }
      const replicaKey = `replica:${statusUpdate.replicaId}`;
      const replicaData = await this.redis.get(replicaKey);
      if (replicaData) {
          const replica = JSON.parse(replicaData);
          replica.status = statusUpdate.status;
          replica.metrics = statusUpdate.metrics;
          await this.redis.set(replicaKey, JSON.stringify(replica));
      }
  }
  \<close>
\<close>

definition deploymentStatus_redis :: "redis orchestrator \<Rightarrow> statusUpdate \<Rightarrow> redis orchestrator" where
  "deploymentStatus_redis s u =
     (case getDeployment (db s) (su_deploymentId u) of
        None \<Rightarrow> s
      | Some deployment \<Rightarrow>
          (let r1 =
                 (case findIndex (\<lambda>w. a_replicaId w = su_replicaId u) (d_workers deployment) of
                    None \<Rightarrow> db s
                  | Some workerIndex \<Rightarrow>
                      setDeployment (su_deploymentId u)
                        (deployment\<lparr>d_workers := (d_workers deployment)
                           [workerIndex := (d_workers deployment ! workerIndex)
                              \<lparr>a_status := su_status u\<rparr>]\<rparr>)
                        (db s))
           in case replicaKey r1 (su_replicaId u) of
                None \<Rightarrow> s\<lparr>db := r1\<rparr>
              | Some replica \<Rightarrow>
                  s\<lparr>db := setReplica (su_replicaId u)
                             (replica\<lparr>r_status := su_status u, r_metrics := su_metrics u\<rparr>) r1\<rparr>))"

text \<open>
  \<^verbatim>\<open>deployRepository\<close>. The filter
  \<^verbatim>\<open>worker && worker.status === 'active' && worker.currentLoad.cpuUsage < 80\<close>
  throws a TypeError on an active worker without \<^verbatim>\<open>currentLoad\<close>; nothing catches it
  inside the method, so the call rejects with it.
\<close>

fun filterActiveWorkers :: "worker option list \<Rightarrow> error + worker list" where
  "filterActiveWorkers [] = Inr []"
| "filterActiveWorkers (None # ws) = filterActiveWorkers ws"
| "filterActiveWorkers (Some w # ws) =
     (if w_status w = ''active''
      then (case w_currentLoad w of
              None \<Rightarrow> Inl TypeError
            | Some l \<Rightarrow>
                (case filterActiveWorkers ws of
                   Inl e \<Rightarrow> Inl e
                 | Inr rest \<Rightarrow> if cpuUsage l < 80 then Inr (w # rest) else Inr rest))
      else filterActiveWorkers ws)"

text \<open>The loop \<^verbatim>\<open>for (let i = 0; i < minReplicas; i++)\<close> that creates the initial
  replicas, over the values of \<open>i\<close>.\<close>

fun createReplicas_redis :: "nat \<Rightarrow> int \<Rightarrow> nat list \<Rightarrow> redis \<Rightarrow> redis" where
  "createReplicas_redis deploymentId now [] r = r"
| "createReplicas_redis deploymentId now (i # is) r =
     (case getNextId ''replica'' r of
        (replicaId, r1) \<Rightarrow>
          createReplicas_redis deploymentId now is
            (saddReplicas deploymentId replicaId
              (setReplica replicaId
                \<lparr>r_id = replicaId, r_deploymentId = deploymentId, r_status = ''pending'',
                 r_replicaNumber = i + 1, r_metrics = None, r_createdAt = Some now\<rparr>
                r1)))"

definition initialWorkers :: "worker list \<Rightarrow> int \<Rightarrow> assignment list" where
  "initialWorkers ws minReplicas =
     map (\<lambda>(index, worker). \<lparr>a_workerId = w_id worker, a_replicaId = index + 1,
                               a_status = ''pending''\<rparr>)
       (enumerate 0 (slice0 ws minReplicas))"

definition distributeToWorkers_redis ::
  "redis orchestrator \<Rightarrow> deployment \<Rightarrow> repoInfo \<Rightarrow> int \<Rightarrow>
   (error + deployment) \<times> redis orchestrator" where
  "distributeToWorkers_redis s deployment repoInfo now =
     distributeToWorkers (\<lambda>workerId. Inr (workerKey (db s) workerId))
       (\<lambda>d. setDeployment (d_id d) d) s deployment repoInfo now"

definition deployRepository_redis ::
  "(string \<Rightarrow> repoInfo option) \<Rightarrow> redis orchestrator \<Rightarrow> deploymentRequest \<Rightarrow> int \<Rightarrow>
   (error + deployment) \<times> redis orchestrator" where
  "deployRepository_redis api s deploymentRequest now =
     (let githubRepo = rq_githubRepo deploymentRequest;
          userName = rq_userName deploymentRequest;
          minReplicas = (case rq_minReplicas deploymentRequest of None \<Rightarrow> 1 | Some m \<Rightarrow> m);
          maxReplicas = (case rq_maxReplicas deploymentRequest of None \<Rightarrow> 3 | Some m \<Rightarrow> m)
      in case validateGithubRepo api githubRepo of
           None \<Rightarrow> (Inl InvalidRepository, s)
         | Some repoInfo \<Rightarrow>
             (case filterActiveWorkers (map (workerKey (db s)) (workersSet (db s))) of
                Inl e \<Rightarrow> (Inl e, s)
              | Inr activeWorkers \<Rightarrow>
                  if int (length activeWorkers) < minReplicas
                  then (Inl (InsufficientWorkers minReplicas (length activeWorkers)), s)
                  else
                    (case getNextId ''deployment'' (db s) of
                       (deploymentId, r1) \<Rightarrow>
                         (let deployment =
                                \<lparr>d_id = deploymentId, d_githubRepo = githubRepo,
                                 d_userName = userName, d_minReplicas = minReplicas,
                                 d_maxReplicas = maxReplicas, d_status = ''deploying'',
                                 d_lastScaleUp = None, d_lastScaleDown = None,
                                 d_workers = initialWorkers activeWorkers minReplicas,
                                 d_createdAt = now\<rparr>;
                              r2 = setDeployment deploymentId deployment r1;
                              r3 = r2\<lparr>deploymentsSet := sadd deploymentId (deploymentsSet r2)\<rparr>;
                              r4 = createReplicas_redis deploymentId now [0..<nat minReplicas] r3
                          in distributeToWorkers_redis (s\<lparr>db := r4\<rparr>) deployment repoInfo now))))"


section \<open>The orchestrator over MongoDB\<close>

text \<open>
  The store: the collections behind the models \<^verbatim>\<open>Worker\<close>, \<^verbatim>\<open>Deployment\<close> and
  \<^verbatim>\<open>Replica\<close>, each a list of documents in insertion order, and the source of fresh
  ObjectIds. A query without \<^verbatim>\<open>sort\<close> answers in insertion order, \<^verbatim>\<open>sort\<close> is
  stable, and \<^verbatim>\<open>findOne\<close>, \<^verbatim>\<open>findOneAndUpdate\<close> and \<^verbatim>\<open>findByIdAndDelete\<close> act on
  the first match.
\<close>

record mongo =
  Workers :: "worker list"
  Deployments :: "deployment list"
  Replicas :: "replica list"
  nextObjectId :: nat

definition newObjectId :: "mongo \<Rightarrow> nat \<times> mongo" where
  "newObjectId m = (nextObjectId m, m\<lparr>nextObjectId := Suc (nextObjectId m)\<rparr>)"

fun updateFirst :: "('a \<Rightarrow> bool) \<Rightarrow> ('a \<Rightarrow> 'a) \<Rightarrow> 'a list \<Rightarrow> 'a list" where
  "updateFirst P f [] = []"
| "updateFirst P f (x # xs) = (if P x then f x # xs else x # updateFirst P f xs)"

fun deleteFirst :: "('a \<Rightarrow> bool) \<Rightarrow> 'a list \<Rightarrow> 'a list" where
  "deleteFirst P [] = []"
| "deleteFirst P (x # xs) = (if P x then xs else x # deleteFirst P xs)"

definition findWorkerById :: "mongo \<Rightarrow> nat \<Rightarrow> worker option" where
  "findWorkerById m workerId = find (\<lambda>w. w_id w = workerId) (Workers m)"

definition findDeploymentById :: "mongo \<Rightarrow> nat \<Rightarrow> deployment option" where
  "findDeploymentById m deploymentId = find (\<lambda>d. d_id d = deploymentId) (Deployments m)"

text \<open>\<^verbatim>\<open>deployment.save()\<close> on a document that was loaded from the collection.\<close>

definition saveDeployment :: "deployment \<Rightarrow> mongo \<Rightarrow> mongo" where
  "saveDeployment d m =
     m\<lparr>Deployments := updateFirst (\<lambda>x. d_id x = d_id d) (\<lambda>x. d) (Deployments m)\<rparr>"

text \<open>The filter \<^verbatim>\<open>{ status: 'active', 'currentLoad.cpuUsage': { $lt: 80 } }\<close> (a document
  without the field does not match \<^verbatim>\<open>$lt\<close>) and the key of
  \<^verbatim>\<open>.sort({ 'currentLoad.cpuUsage': 1 })\<close>.\<close>

definition eligible :: "worker \<Rightarrow> bool" where
  "eligible w =
     (w_status w = ''active'' \<and>
      (case w_currentLoad w of None \<Rightarrow> False | Some l \<Rightarrow> cpuUsage l < 80))"

definition cpuKey :: "worker \<Rightarrow> rat" where
  "cpuKey w = (case w_currentLoad w of None \<Rightarrow> 0 | Some l \<Rightarrow> cpuUsage l)"

text \<open>\<^verbatim>\<open>.limit(n)\<close>: \<open>0\<close> asks for no limit, a negative \<open>n\<close> for \<open>|n|\<close> documents.\<close>

definition mongoLimit :: "int \<Rightarrow> 'a list \<Rightarrow> 'a list" where
  "mongoLimit n xs = (if n = 0 then xs else take (nat \<bar>n\<bar>) xs)"

definition findAvailableWorker_mongo :: "mongo \<Rightarrow> worker option" where
  "findAvailableWorker_mongo m =
     (case sort_key cpuKey (filter eligible (Workers m)) of
        [] \<Rightarrow> None
      | w # _ \<Rightarrow> Some w)"

text \<open>
  \<^verbatim>\<open>scaleUp\<close>:
  \<^verbatim>\<open>
  const worker = await this.findAvailableWorker();
  if (!worker) throw new Error('No available workers found');
  const newReplica = new Replica({ deploymentId: deployment._id, status: 'pending',
                                   replicaNumber: deployment.workers.length + 1 });
  await newReplica.save();
  deployment.lastScaleUp = new Date();
  deployment.workers.push({ workerId: worker._id, replicaId: newReplica.replicaNumber,
                            status: 'pending' });
  await deployment.save();
  this.io.to(worker.socketId).emit('deploymentTask', { deploymentId: deployment._id,
      replicaId: newReplica.replicaNumber, githubRepo: deployment.githubRepo,
      deploymentTime: new Date().toISOString() });
  \<close>
\<close>

definition scaleUp_mongo :: "mongo orchestrator \<Rightarrow> deployment \<Rightarrow> int \<Rightarrow> mongo orchestrator" where
  "scaleUp_mongo s0 deployment now =
     (let s = consoleLog (LogScalingUp (d_id deployment)) s0 in
      case findAvailableWorker_mongo (db s) of
        None \<Rightarrow> consoleLog (LogErrorScalingUp (d_id deployment) NoAvailableWorkers) s
      | Some worker \<Rightarrow>
          (case newObjectId (db s) of
             (oid, m1) \<Rightarrow>
               (let newReplica = \<lparr>r_id = oid, r_deploymentId = d_id deployment,
                                   r_status = ''pending'',
                                   r_replicaNumber = length (d_workers deployment) + 1,
                                   r_metrics = None, r_createdAt = Some now\<rparr>;
                    m2 = m1\<lparr>Replicas := Replicas m1 @ [newReplica]\<rparr>;
                    deployment1 = deployment
                      \<lparr>d_lastScaleUp := Some now,
                       d_workers := d_workers deployment @
                         [\<lparr>a_workerId = w_id worker, a_replicaId = r_replicaNumber newReplica,
                           a_status = ''pending''\<rparr>]\<rparr>;
                    m3 = saveDeployment deployment1 m2
                in emit (w_socketId worker) ''deploymentTask''
                     (DeploymentTask (d_id deployment) (r_replicaNumber newReplica)
                        (d_githubRepo deployment) now)
                     (s\<lparr>db := m3\<rparr>))))"

text \<open>
  \<^verbatim>\<open>scaleDown\<close>:
  \<^verbatim>\<open>
  const lastWorker = deployment.workers[deployment.workers.length - 1];
  if (!lastWorker) return;
  const worker = await Worker.findById(lastWorker.workerId);
  if (!worker) return;
  this.io.to(worker.socketId).emit('removeReplica',
      { deploymentId: deployment._id, replicaId: lastWorker.replicaId });
  deployment.lastScaleDown = new Date();
  deployment.workers = deployment.workers.slice(0, -1);
  await deployment.save();
  await Replica.findOneAndUpdate(
      { deploymentId: deployment._id, replicaNumber: lastWorker.replicaId },
      { status: 'removing' });
  \<close>
\<close>

definition scaleDown_mongo :: "mongo orchestrator \<Rightarrow> deployment \<Rightarrow> int \<Rightarrow> mongo orchestrator" where
  "scaleDown_mongo s0 deployment now =
     (let s = consoleLog (LogScalingDown (d_id deployment)) s0 in
      if d_workers deployment = [] then s
      else
        (let lastWorker = last (d_workers deployment) in
         case findWorkerById (db s) (a_workerId lastWorker) of
           None \<Rightarrow> s
         | Some worker \<Rightarrow>
             (let s1 = emit (w_socketId worker) ''removeReplica''
                         (RemoveReplica (d_id deployment) (a_replicaId lastWorker)) s;
                  deployment1 = deployment
                    \<lparr>d_lastScaleDown := Some now,
                     d_workers := butlast (d_workers deployment)\<rparr>;
                  m1 = saveDeployment deployment1 (db s1);
                  m2 = m1\<lparr>Replicas :=
                         updateFirst
                           (\<lambda>r. r_deploymentId r = d_id deployment \<and>
                                r_replicaNumber r = a_replicaId lastWorker)
                           (\<lambda>r. r\<lparr>r_status := ''removing''\<rparr>)
                           (Replicas m1)\<rparr>
              in s1\<lparr>db := m2\<rparr>)))"

text \<open>\<^verbatim>\<open>checkAndScale\<close>. Here \<^verbatim>\<open>deployment.lastScaleUp\<close> is a \<^verbatim>\<open>Date\<close> or absent, so
  \<^verbatim>\<open>!deployment.lastScaleUp\<close> is true of the absent stamp only.\<close>

definition cooldownOver_mongo :: "int option \<Rightarrow> int \<Rightarrow> int \<Rightarrow> bool" where
  "cooldownOver_mongo lastScale now cooldown =
     (case lastScale of None \<Rightarrow> True | Some t \<Rightarrow> now - t > cooldown)"

definition checkAndScale_mongo :: "mongo orchestrator \<Rightarrow> deployment \<Rightarrow> int \<Rightarrow> mongo orchestrator" where
  "checkAndScale_mongo s deployment now =
     (let replicas = filter (\<lambda>r. r_deploymentId r = d_id deployment) (Replicas (db s));
          currentReplicaCount = length replicas;
          activeReplicas = filter (\<lambda>r. r_status r = ''active'') replicas;
          avg = avgCpuLoad activeReplicas;
          s1 = consoleLog (LogAverageCpu (d_id deployment) avg) s
      in if avg > cpuThreshold \<and>
            int currentReplicaCount < d_maxReplicas deployment \<and>
            cooldownOver_mongo (d_lastScaleUp deployment) now scaleUpCooldown
         then scaleUp_mongo s1 deployment now
         else if avg < cpuThreshold / 2 \<and>
            int currentReplicaCount > d_minReplicas deployment \<and>
            cooldownOver_mongo (d_lastScaleDown deployment) now scaleDownCooldown
         then scaleDown_mongo s1 deployment now
         else s1)"

text \<open>
  One firing of the timer of \<^verbatim>\<open>startScalingMonitor\<close>:
  \<^verbatim>\<open>
  const deployments = await Deployment.find({ status: 'active' });
  for (const deployment of deployments) { await this.checkAndScale(deployment); }
  \<close>
\<close>

fun scalingMonitorLoop_mongo :: "int \<Rightarrow> deployment list \<Rightarrow> mongo orchestrator \<Rightarrow> mongo orchestrator" where
  "scalingMonitorLoop_mongo now [] s = s"
| "scalingMonitorLoop_mongo now (deployment # rest) s =
     scalingMonitorLoop_mongo now rest (checkAndScale_mongo s deployment now)"

definition scalingMonitor_mongo :: "mongo orchestrator \<Rightarrow> int \<Rightarrow> mongo orchestrator" where
  "scalingMonitor_mongo s now =
     scalingMonitorLoop_mongo now
       (filter (\<lambda>d. d_status d = ''active'') (Deployments (db s))) s"

text \<open>
  The \<^verbatim>\<open>registerWorker\<close> and \<^verbatim>\<open>disconnect\<close> handlers of one socket (the heartbeat
  timer they arm and clear is not modelled):
  \<^verbatim>\<open>
  await Worker.deleteMany({ hostname: workerData.hostname });
  const worker = new Worker({ hostname: workerData.hostname, socketId: socket.id,
                              status: 'active', lastHeartbeat: new Date() });
  await worker.save();
  socket.workerId = worker._id;
  socket.emit('workerRegistered', { id: worker._id });
  \<close>
  and
  \<^verbatim>\<open>
  if (socket.workerId) { await Worker.findByIdAndDelete(socket.workerId); }
  \<close>
\<close>

definition registerWorker_mongo ::
  "mongo orchestrator \<Rightarrow> string \<Rightarrow> string \<Rightarrow> int \<Rightarrow> mongo orchestrator" where
  "registerWorker_mongo s socketId hostname now =
     (let m1 = (db s)\<lparr>Workers := filter (\<lambda>w. w_hostname w \<noteq> hostname) (Workers (db s))\<rparr>
      in case newObjectId m1 of
           (oid, m2) \<Rightarrow>
             (let worker = \<lparr>w_id = oid, w_hostname = hostname, w_socketId = socketId,
                             w_status = ''active'', w_lastHeartbeat = now,
                             w_currentLoad = None\<rparr>;
                  m3 = m2\<lparr>Workers := Workers m2 @ [worker]\<rparr>
              in emit socketId ''workerRegistered'' (WorkerRegistered oid)
                   (s\<lparr>db := m3, socketWorkerId := (socketWorkerId s)(socketId \<mapsto> oid)\<rparr>)))"

definition disconnect_mongo :: "mongo orchestrator \<Rightarrow> string \<Rightarrow> mongo orchestrator" where
  "disconnect_mongo s socketId =
     (case socketWorkerId s socketId of
        None \<Rightarrow> s
      | Some workerId \<Rightarrow>
          s\<lparr>db := (db s)\<lparr>Workers := deleteFirst (\<lambda>w. w_id w = workerId) (Workers (db s))\<rparr>\<rparr>)"

text \<open>
  The \<^verbatim>\<open>deploymentStatus\<close> handler:
  \<^verbatim>\<open>
  const deployment = await Deployment.findById(statusUpdate.deploymentId);
  if (deployment) {
      const workerIndex = deployment.workers.findIndex(
          w => w.replicaId.toString() === statusUpdate.replicaId.toString());
      if (workerIndex !== -1) {
          deployment.workers[workerIndex].status = statusUpdate.status;
          await deployment.save();
      }
      await Replica.findOneAndUpdate(
          { deploymentId: statusUpdate.deploymentId, replicaNumber: statusUpdate.replicaId },
          { status: statusUpdate.status, metrics: statusUpdate.metrics });
  }
  \<close>
  The schema restricts the status of an assignment to
  \<^verbatim>\<open>enum: ['pending', 'deploying', 'active', 'failed', 'removing']\<close>, and
  \<^verbatim>\<open>deployment.save()\<close> validates the modified path: with any other status it rejects,
  the \<^verbatim>\<open>catch\<close> of the handler logs the error and the replica is not reached.
  \<^verbatim>\<open>findOneAndUpdate\<close> does not validate, and it leaves a key whose value is
  \<^verbatim>\<open>undefined\<close> out of the update: a report without \<^verbatim>\<open>metrics\<close> keeps the metrics
  the replica has.
\<close>

definition assignmentStatuses :: "string list" where
  "assignmentStatuses = [''pending'', ''deploying'', ''active'', ''failed'', ''removing'']"

definition updateReplica_mongo :: "statusUpdate \<Rightarrow> mongo \<Rightarrow> mongo" where
  "updateReplica_mongo u m =
     m\<lparr>Replicas :=
         updateFirst
           (\<lambda>r. r_deploymentId r = su_deploymentId u \<and> r_replicaNumber r = su_replicaId u)
           (\<lambda>r. r\<lparr>r_status := su_status u,
                   r_metrics := (case su_metrics u of
                                   None \<Rightarrow> r_metrics r
                                 | Some metrics \<Rightarrow> Some metrics)\<rparr>)
           (Replicas m)\<rparr>"

definition deploymentStatus_mongo :: "mongo orchestrator \<Rightarrow> statusUpdate \<Rightarrow> mongo orchestrator" where
  "deploymentStatus_mongo s u =
     (case findDeploymentById (db s) (su_deploymentId u) of
        None \<Rightarrow> s
      | Some deployment \<Rightarrow>
          (case findIndex (\<lambda>w. a_replicaId w = su_replicaId u) (d_workers deployment) of
             None \<Rightarrow> s\<lparr>db := updateReplica_mongo u (db s)\<rparr>
           | Some workerIndex \<Rightarrow>
               if su_status u \<in> set assignmentStatuses
               then s\<lparr>db := updateReplica_mongo u
                       (saveDeployment
                          (deployment\<lparr>d_workers := (d_workers deployment)
                             [workerIndex := (d_workers deployment ! workerIndex)
                                \<lparr>a_status := su_status u\<rparr>]\<rparr>)
                          (db s))\<rparr>
               else s))"

text \<open>
  \<^verbatim>\<open>deployRepository\<close>:
  \<^verbatim>\<open>
  const workers = await Worker.find({ status: 'active', 'currentLoad.cpuUsage': { $lt: 80 } })
      .sort({ 'currentLoad.cpuUsage': 1 }).limit(maxReplicas);
  if (workers.length < minReplicas) throw new Error(`Insufficient active workers. ...`);
  const deployment = new Deployment({ githubRepo, userName, minReplicas, maxReplicas,
      status: 'deploying',
      workers: workers.slice(0, minReplicas).map((worker, index) =>
          ({ workerId: worker._id, replicaId: index + 1, status: 'pending' })) });
  await deployment.save();
  for (let i = 0; i < minReplicas; i++) {
      await new Replica({ deploymentId: deployment._id, status: 'pending',
                          replicaNumber: i + 1 }).save();
  }
  await this.distributeToWorkers(deployment, repoInfo);
  return deployment;
  \<close>
\<close>

fun createReplicas_mongo :: "nat \<Rightarrow> int \<Rightarrow> nat list \<Rightarrow> mongo \<Rightarrow> mongo" where
  "createReplicas_mongo deploymentId now [] m = m"
| "createReplicas_mongo deploymentId now (i # is) m =
     (case newObjectId m of
        (oid, m1) \<Rightarrow>
          createReplicas_mongo deploymentId now is
            (m1\<lparr>Replicas := Replicas m1 @
                 [\<lparr>r_id = oid, r_deploymentId = deploymentId, r_status = ''pending'',
                   r_replicaNumber = i + 1, r_metrics = None, r_createdAt = Some now\<rparr>]\<rparr>))"

definition distributeToWorkers_mongo ::
  "mongo orchestrator \<Rightarrow> deployment \<Rightarrow> repoInfo \<Rightarrow> int \<Rightarrow>
   (error + deployment) \<times> mongo orchestrator" where
  "distributeToWorkers_mongo s deployment repoInfo now =
     distributeToWorkers (\<lambda>workerId. Inr (findWorkerById (db s) workerId))
       saveDeployment s deployment repoInfo now"

definition deployRepository_mongo ::
  "(string \<Rightarrow> repoInfo option) \<Rightarrow> mongo orchestrator \<Rightarrow> deploymentRequest \<Rightarrow> int \<Rightarrow>
   (error + deployment) \<times> mongo orchestrator" where
  "deployRepository_mongo api s deploymentRequest now =
     (let githubRepo = rq_githubRepo deploymentRequest;
          userName = rq_userName deploymentRequest;
          minReplicas = (case rq_minReplicas deploymentRequest of None \<Rightarrow> 1 | Some m \<Rightarrow> m);
          maxReplicas = (case rq_maxReplicas deploymentRequest of None \<Rightarrow> 3 | Some m \<Rightarrow> m)
      in case validateGithubRepo api githubRepo of
           None \<Rightarrow> (Inl InvalidRepository, s)
         | Some repoInfo \<Rightarrow>
             (let workers = mongoLimit maxReplicas
                              (sort_key cpuKey (filter eligible (Workers (db s))))
              in if int (length workers) < minReplicas
                 then (Inl (InsufficientWorkers minReplicas (length workers)), s)
                 else
                   (case newObjectId (db s) of
                      (oid, m1) \<Rightarrow>
                        (let deployment =
                               \<lparr>d_id = oid, d_githubRepo = githubRepo,
                                d_userName = userName, d_minReplicas = minReplicas,
                                d_maxReplicas = maxReplicas, d_status = ''deploying'',
                                d_lastScaleUp = None, d_lastScaleDown = None,
                                d_workers = initialWorkers workers minReplicas,
                                d_createdAt = now\<rparr>;
                             m2 = m1\<lparr>Deployments := Deployments m1 @ [deployment]\<rparr>;
                             m3 = createReplicas_mongo oid now [0..<nat minReplicas] m2
                         in distributeToWorkers_mongo (s\<lparr>db := m3\<rparr>) deployment repoInfo now))))"


section \<open>Observations and example stores\<close>

text \<open>
  What a call added to the console, the scaling actions among those lines (both
  \<^verbatim>\<open>scaleUp\<close> and \<^verbatim>\<open>scaleDown\<close> open with a line that names the deployment), and the
  well-formedness of a Redis store in which every deployment of the \<^verbatim>\<open>deployments\<close> set
  sits under the key of its own \<^verbatim>\<open>id\<close>.
\<close>

definition newConsole :: "'db orchestrator \<Rightarrow> 'db orchestrator \<Rightarrow> logLine list" where
  "newConsole s s' = drop (length (console s)) (console s')"

definition newEmitted :: "'db orchestrator \<Rightarrow> 'db orchestrator \<Rightarrow> (string \<times> string \<times> payload) list" where
  "newEmitted s s' = drop (length (emitted s)) (emitted s')"

fun isScalingAction :: "logLine \<Rightarrow> bool" where
  "isScalingAction (LogScalingUp i) = True"
| "isScalingAction (LogScalingDown i) = True"
| "isScalingAction l = False"

definition scalingActions :: "nat \<Rightarrow> logLine list \<Rightarrow> logLine list" where
  "scalingActions i ls = filter (\<lambda>l. l = LogScalingUp i \<or> l = LogScalingDown i) ls"

text \<open>The workers a Redis store holds, in the order of its \<^verbatim>\<open>workers\<close> set, and the
  \<^verbatim>\<open>deployRepository\<close> messages for those assignments of a list whose worker the lookup
  returns.\<close>

fun somes :: "'a option list \<Rightarrow> 'a list" where
  "somes [] = []"
| "somes (None # xs) = somes xs"
| "somes (Some x # xs) = x # somes xs"

definition storedWorkers :: "redis \<Rightarrow> worker list" where
  "storedWorkers r = somes (map (workerKey r) (workersSet r))"

definition deployMessages ::
  "(nat \<Rightarrow> error + worker option) \<Rightarrow> string \<Rightarrow> deployment \<Rightarrow> repoInfo \<Rightarrow> int \<Rightarrow>
   assignment list \<Rightarrow> (string \<times> string \<times> payload) list" where
  "deployMessages lookup path d repoInfo now refs =
     concat (map (\<lambda>workerRef.
       case lookup (a_workerId workerRef) of
         Inr (Some worker) \<Rightarrow>
           [(w_socketId worker, ''deployRepository'',
             DeployRepository (deploymentDir path (d_id d) (a_replicaId workerRef))
               (clone_url repoInfo) (a_replicaId workerRef) (d_id d) now)]
       | _ \<Rightarrow> []) refs)"

definition keyedOn :: "nat list \<Rightarrow> redis \<Rightarrow> bool" where
  "keyedOn ks r =
     list_all (\<lambda>k. case deploymentKey r k of None \<Rightarrow> True | Some d \<Rightarrow> d_id d = k) ks"

definition keyed :: "redis \<Rightarrow> bool" where
  "keyed r = keyedOn (deploymentsSet r) r"

text \<open>Two workers, a deployment \<open>1\<close> with two active replicas under load and a
  deployment \<open>2\<close> with one pending replica, held in either store.\<close>

definition workerA :: worker where
  "workerA = \<lparr>w_id = 1, w_hostname = ''host-a'', w_socketId = ''sock-a'',
     w_status = ''active'', w_lastHeartbeat = 1000,
     w_currentLoad = Some \<lparr>cpuUsage = 10, memoryUsage = 20, runningContainers = 1\<rparr>\<rparr>"

definition workerB :: worker where
  "workerB = \<lparr>w_id = 2, w_hostname = ''host-b'', w_socketId = ''sock-b'',
     w_status = ''active'', w_lastHeartbeat = 1000,
     w_currentLoad = Some \<lparr>cpuUsage = 20, memoryUsage = 20, runningContainers = 1\<rparr>\<rparr>"

definition webDeployment :: deployment where
  "webDeployment = \<lparr>d_id = 1, d_githubRepo = ''https://github.com/acme/app.git'',
     d_userName = ''alice'', d_minReplicas = 1, d_maxReplicas = 4, d_status = ''active'',
     d_lastScaleUp = None, d_lastScaleDown = None,
     d_workers = [\<lparr>a_workerId = 1, a_replicaId = 1, a_status = ''active''\<rparr>,
                  \<lparr>a_workerId = 2, a_replicaId = 2, a_status = ''active''\<rparr>],
     d_createdAt = 500\<rparr>"

definition apiDeployment :: deployment where
  "apiDeployment = \<lparr>d_id = 2, d_githubRepo = ''https://github.com/acme/api.git'',
     d_userName = ''bob'', d_minReplicas = 1, d_maxReplicas = 3, d_status = ''active'',
     d_lastScaleUp = None, d_lastScaleDown = None,
     d_workers = [\<lparr>a_workerId = 1, a_replicaId = 1, a_status = ''pending''\<rparr>],
     d_createdAt = 600\<rparr>"

definition webReplica1 :: replica where
  "webReplica1 = \<lparr>r_id = 1, r_deploymentId = 1, r_status = ''active'', r_replicaNumber = 1,
     r_metrics = Some \<lparr>cpuUsage = 90, memoryUsage = 30\<rparr>, r_createdAt = Some 500\<rparr>"

definition webReplica2 :: replica where
  "webReplica2 = \<lparr>r_id = 2, r_deploymentId = 1, r_status = ''active'', r_replicaNumber = 2,
     r_metrics = Some \<lparr>cpuUsage = 80, memoryUsage = 30\<rparr>, r_createdAt = Some 500\<rparr>"

definition apiReplica1 :: replica where
  "apiReplica1 = \<lparr>r_id = 3, r_deploymentId = 2, r_status = ''pending'', r_replicaNumber = 1,
     r_metrics = None, r_createdAt = Some 600\<rparr>"

definition redisStore :: redis where
  "redisStore =
     \<lparr>counter = (\<lambda>_. 0)(''worker'' := 2, ''deployment'' := 2, ''replica'' := 3),
      workerKey = [1 \<mapsto> workerA, 2 \<mapsto> workerB],
      deploymentKey = [1 \<mapsto> webDeployment, 2 \<mapsto> apiDeployment],
      replicaKey = [1 \<mapsto> webReplica1, 2 \<mapsto> webReplica2, 3 \<mapsto> apiReplica1],
      workersSet = [1, 2], deploymentsSet = [1, 2],
      replicasSet = (\<lambda>_. [])(1 := [1, 2], 2 := [3])\<rparr>"

definition redisOrchestrator :: "redis orchestrator" where
  "redisOrchestrator =
     \<lparr>db = redisStore, socketWorkerId = [''sock-a'' \<mapsto> 1, ''sock-b'' \<mapsto> 2],
      emitted = [], console = [], deploymentPath = ''./deployments''\<rparr>"

definition mongoStore :: mongo where
  "mongoStore =
     \<lparr>Workers = [workerA, workerB], Deployments = [webDeployment, apiDeployment],
      Replicas = [webReplica1, webReplica2, apiReplica1], nextObjectId = 10\<rparr>"

definition mongoOrchestrator :: "mongo orchestrator" where
  "mongoOrchestrator =
     \<lparr>db = mongoStore, socketWorkerId = [''sock-a'' \<mapsto> 1, ''sock-b'' \<mapsto> 2],
      emitted = [], console = [], deploymentPath = ''./deployments''\<rparr>"

text \<open>Sequences of \<^verbatim>\<open>registerWorker\<close> and \<^verbatim>\<open>disconnect\<close> events (socket id, hostname
  and arrival time), run from a fresh orchestrator, and the Redis workers of one
  hostname.\<close>


datatype event = RegisterWorker string string int | Disconnect string

fun handle_redis :: "redis orchestrator \<Rightarrow> event \<Rightarrow> redis orchestrator" where
  "handle_redis s (RegisterWorker socketId hostname now) = registerWorker_redis s socketId hostname now"
| "handle_redis s (Disconnect socketId) = disconnect_redis s socketId"

fun handle_mongo :: "mongo orchestrator \<Rightarrow> event \<Rightarrow> mongo orchestrator" where
  "handle_mongo s (RegisterWorker socketId hostname now) = registerWorker_mongo s socketId hostname now"
| "handle_mongo s (Disconnect socketId) = disconnect_mongo s socketId"

definition emptyRedis :: "redis orchestrator" where
  "emptyRedis = \<lparr>db = \<lparr>counter = (\<lambda>_. 0), workerKey = Map.empty, deploymentKey = Map.empty,
       replicaKey = Map.empty, workersSet = [], deploymentsSet = [], replicasSet = (\<lambda>_. [])\<rparr>,
     socketWorkerId = Map.empty, emitted = [], console = [], deploymentPath = ''./deployments''\<rparr>"

definition emptyMongo :: "mongo orchestrator" where
  "emptyMongo = \<lparr>db = \<lparr>Workers = [], Deployments = [], Replicas = [], nextObjectId = 0\<rparr>,
     socketWorkerId = Map.empty, emitted = [], console = [], deploymentPath = ''./deployments''\<rparr>"

definition workersNamed :: "string \<Rightarrow> redis \<Rightarrow> worker list" where
  "workersNamed hostname r = filter (\<lambda>w. w_hostname w = hostname) (storedWorkers r)"

text \<open>Further examples: the answer of the code host for \<^verbatim>\<open>acme/app\<close>, a deploy
  request without replica bounds, the deployment it creates when the bounds are 2 and 5, a
  deployment whose only assignment names a worker that is gone, a lookup that is rejected
  for worker \<open>2\<close>, a status report for replica number \<open>1\<close> of deployment \<open>2\<close>, the
  orchestrators right after their first registration, and the example orchestrators with
  both workers at 85 percent.\<close>

definition exampleRepo :: repoInfo where
  "exampleRepo = \<lparr>clone_url = ''https://github.com/acme/app.git''\<rparr>"

definition exampleApi :: "string \<Rightarrow> repoInfo option" where
  "exampleApi ref = (if ref = ''acme/app'' then Some exampleRepo else None)"

definition exampleRequest :: deploymentRequest where
  "exampleRequest = \<lparr>rq_githubRepo = ''https://github.com/https://github.com/acme/app.git'',
     rq_userName = ''alice'', rq_minReplicas = None, rq_maxReplicas = None\<rparr>"

definition createdDeployment :: "nat \<Rightarrow> deployment" where
  "createdDeployment i = \<lparr>d_id = i,
     d_githubRepo = ''https://github.com/https://github.com/acme/app.git'',
     d_userName = ''alice'', d_minReplicas = 2, d_maxReplicas = 5, d_status = ''active'',
     d_lastScaleUp = None, d_lastScaleDown = None,
     d_workers = [\<lparr>a_workerId = 1, a_replicaId = 1, a_status = ''pending''\<rparr>,
                  \<lparr>a_workerId = 2, a_replicaId = 2, a_status = ''pending''\<rparr>],
     d_createdAt = 1700000000000\<rparr>"

definition orphanDeployment :: deployment where
  "orphanDeployment = apiDeployment
     \<lparr>d_status := ''deploying'',
      d_workers := [\<lparr>a_workerId = 9, a_replicaId = 1, a_status = ''pending''\<rparr>]\<rparr>"

definition flakyLookup :: "nat \<Rightarrow> error + worker option" where
  "flakyLookup workerId =
     (if workerId = 2 then Inl StoreFailure else Inr (workerKey redisStore workerId))"

definition apiReport :: statusUpdate where
  "apiReport = \<lparr>su_workerId = 1, su_deploymentId = 2, su_replicaId = 1, su_status = ''active'',
     su_metrics = Some \<lparr>cpuUsage = 5, memoryUsage = 6\<rparr>\<rparr>"

definition freshRedis :: "redis orchestrator" where
  "freshRedis = registerWorker_redis emptyRedis ''sock-1'' ''host-a'' 1700000000000"

definition freshMongo :: "mongo orchestrator" where
  "freshMongo = registerWorker_mongo emptyMongo ''sock-1'' ''host-a'' 1700000000000"

definition busyLoad :: load where
  "busyLoad = \<lparr>cpuUsage = 85, memoryUsage = 40, runningContainers = 3\<rparr>"

definition busyRedis :: "redis orchestrator" where
  "busyRedis = redisOrchestrator
     \<lparr>db := redisStore
        \<lparr>workerKey := [1 \<mapsto> workerA\<lparr>w_currentLoad := Some busyLoad\<rparr>,
                        2 \<mapsto> workerB\<lparr>w_currentLoad := Some busyLoad\<rparr>]\<rparr>\<rparr>"

definition busyMongo :: "mongo orchestrator" where
  "busyMongo = mongoOrchestrator
     \<lparr>db := mongoStore
        \<lparr>Workers := [workerA\<lparr>w_currentLoad := Some busyLoad\<rparr>,
                      workerB\<lparr>w_currentLoad := Some busyLoad\<rparr>]\<rparr>\<rparr>"








lemmas example_defs = workerA_def workerB_def webDeployment_def apiDeployment_def
  webReplica1_def webReplica2_def apiReplica1_def redisStore_def redisOrchestrator_def
  mongoStore_def mongoOrchestrator_def


section \<open>Properties of the repository normalizer\<close>

lemma stripLeadingPrefixes_no_prefix:
  "\<not> prefix githubPrefix (stripLeadingPrefixes s)"
proof (induction s rule: stripLeadingPrefixes.induct)
  case (1 s)
  show ?case
  proof (cases "prefix githubPrefix s")
    case True
    with 1 show ?thesis by (subst stripLeadingPrefixes.simps) simp
  next
    case False
    then show ?thesis by (subst stripLeadingPrefixes.simps) simp
  qed
qed

lemma stripLeadingPrefixes_fixed:
  "\<not> prefix githubPrefix s \<Longrightarrow> stripLeadingPrefixes s = s"
  by (subst stripLeadingPrefixes.simps) simp

lemma stripLeadingPrefixes_append:
  "stripLeadingPrefixes (githubPrefix @ s) = stripLeadingPrefixes s"
  by (subst stripLeadingPrefixes.simps) simp

lemma stripGitSuffix_is_prefix: "prefix (stripGitSuffix s) s"
  by (simp add: stripGitSuffix_def take_is_prefix)

lemma stripGitSuffix_no_prefix:
  assumes "\<not> prefix githubPrefix s"
  shows "\<not> prefix githubPrefix (stripGitSuffix s)"
proof
  assume "prefix githubPrefix (stripGitSuffix s)"
  then have "prefix githubPrefix s"
    using stripGitSuffix_is_prefix prefix_order.trans by blast
  with assms show False by simp
qed

lemma stripGitSuffix_append: "stripGitSuffix (s @ gitSuffix) = s"
  by (simp add: stripGitSuffix_def suffix_def)

lemma stripOnePrefix_fixed:
  "\<not> prefix githubPrefix s \<Longrightarrow> stripOnePrefix s = s"
  by (simp add: stripOnePrefix_def)

lemma normalizedUrl_no_prefix: "\<not> prefix githubPrefix (normalizedUrl x)"
  by (simp add: normalizedUrl_def stripOnePrefix_fixed stripGitSuffix_no_prefix
      stripLeadingPrefixes_no_prefix)

text \<open>The prefix ends in a slash and no non-empty prefix of the suffix does, so appending
  the suffix to a string cannot complete a leading copy of the prefix.\<close>

lemma prefix_of_gitSuffix:
  "prefix us gitSuffix \<Longrightarrow> us = [] \<or> last us \<noteq> CHR ''/''"
  by (auto simp: gitSuffix_def prefix_Cons)

lemma append_gitSuffix_no_prefix:
  assumes "\<not> prefix githubPrefix t"
  shows "\<not> prefix githubPrefix (t @ gitSuffix)"
proof
  assume "prefix githubPrefix (t @ gitSuffix)"
  with assms obtain us where us: "githubPrefix = t @ us" "prefix us gitSuffix"
    by (auto simp: prefix_append)
  from us(1) assms have "us \<noteq> []" by auto
  with us(1) have "last us = last githubPrefix" by (metis last_appendR)
  also have "\<dots> = CHR ''/''" by (simp add: githubPrefix_def)
  finally show False using prefix_of_gitSuffix [OF us(2)] \<open>us \<noteq> []\<close> by simp
qed

lemma normalizedUrl_canonicalCloneUrl:
  "normalizedUrl (canonicalCloneUrl x) = normalizedUrl x"
proof -
  let ?n = "normalizedUrl x"
  have np: "\<not> prefix githubPrefix ?n" by (rule normalizedUrl_no_prefix)
  have "stripLeadingPrefixes (githubPrefix @ ?n @ gitSuffix) = ?n @ gitSuffix"
    by (simp add: stripLeadingPrefixes_append stripLeadingPrefixes_fixed
        append_gitSuffix_no_prefix [OF np])
  then have "stripGitSuffix (stripLeadingPrefixes (canonicalCloneUrl x)) = ?n"
    by (simp add: canonicalCloneUrl_def stripGitSuffix_append)
  then have "normalizedUrl (canonicalCloneUrl x) = stripOnePrefix ?n"
    unfolding normalizedUrl_def [of "canonicalCloneUrl x"] by simp
  with np show ?thesis by (simp add: stripOnePrefix_fixed)
qed

text \<open>
  Claim C8. The repository normalizer is idempotent: for every input string,
  re-forming the canonical clone URL of a canonical clone URL gives the same URL.
\<close>

theorem canonicalCloneUrl_idempotent:
  "canonicalCloneUrl (canonicalCloneUrl x) = canonicalCloneUrl x"
  unfolding canonicalCloneUrl_def [of "canonicalCloneUrl x"]
  by (simp add: normalizedUrl_canonicalCloneUrl) (simp add: canonicalCloneUrl_def)


section \<open>The scaling controller\<close>


lemma foldl_cpu: "foldl (\<lambda>total replica. total + cpuOrZero replica) a xs = a + sum_list (map cpuOrZero xs)"
  by (induction xs arbitrary: a) (simp_all add: add.assoc)

lemma avgCpuLoad_mean:
  "avgCpuLoad xs = (if xs = [] then 0 else sum_list (map cpuOrZero xs) / of_nat (length xs))"
  by (simp add: avgCpuLoad_def totalCpuLoad_def foldl_cpu)

lemma console_consoleLog [simp]: "console (consoleLog l s) = console s @ [l]"
  by (simp add: consoleLog_def)
lemma console_emit [simp]: "console (emit a b c s) = console s"
  by (simp add: emit_def)
lemma db_consoleLog [simp]: "db (consoleLog l s) = db s"
  by (simp add: consoleLog_def)
lemma db_emit [simp]: "db (emit a b c s) = db s"
  by (simp add: emit_def)
lemma emitted_consoleLog [simp]: "emitted (consoleLog l s) = emitted s"
  by (simp add: consoleLog_def)
lemma emitted_emit [simp]: "emitted (emit a b c s) = emitted s @ [(a, b, c)]"
  by (simp add: emit_def)

lemma scaleUp_mongo_console:
  "console (scaleUp_mongo s d now) = console s @ LogScalingUp (d_id d) #
     (case findAvailableWorker_mongo (db s) of
        None \<Rightarrow> [LogErrorScalingUp (d_id d) NoAvailableWorkers] | Some w \<Rightarrow> [])"
  by (simp add: scaleUp_mongo_def Let_def split: option.splits prod.splits)

lemma scaleDown_mongo_console:
  "console (scaleDown_mongo s d now) = console s @ [LogScalingDown (d_id d)]"
  by (simp add: scaleDown_mongo_def Let_def split: option.splits)

lemma scaleUp_redis_console:
  "console (scaleUp_redis s d now) = console s @ LogScalingUp (d_id d) #
     (case findAvailableWorker_redis (db s) of
        Inl e \<Rightarrow> [LogErrorScalingUp (d_id d) e]
      | Inr None \<Rightarrow> [LogErrorScalingUp (d_id d) NoAvailableWorkers]
      | Inr (Some w) \<Rightarrow> [])"
  by (simp add: scaleUp_redis_def Let_def split: option.splits prod.splits sum.splits)

lemma scaleDown_redis_console:
  "console (scaleDown_redis s d now) = console s @ [LogScalingDown (d_id d)]"
  by (simp add: scaleDown_redis_def Let_def split: option.splits)



lemma scalingActions_append [simp]:
  "scalingActions i (xs @ ys) = scalingActions i xs @ scalingActions i ys"
  by (simp add: scalingActions_def)

lemma checkAndScale_mongo_console:
  "\<exists>ls. console (checkAndScale_mongo s d now) = console s @ ls \<and>
     (\<forall>i. length (scalingActions i ls) \<le> (if i = d_id d then 1 else 0))"
  by (simp add: checkAndScale_mongo_def Let_def scaleUp_mongo_console scaleDown_mongo_console
      scalingActions_def split: option.splits)

lemma scalingMonitorLoop_mongo_console:
  "\<exists>ls. console (scalingMonitorLoop_mongo now ds s) = console s @ ls \<and>
     (\<forall>i. length (scalingActions i ls) \<le> count_list (map d_id ds) i)"
proof (induction ds arbitrary: s)
  case Nil
  then show ?case by (simp add: scalingActions_def)
next
  case (Cons d ds)
  obtain l1 where l1: "console (checkAndScale_mongo s d now) = console s @ l1"
    "\<forall>i. length (scalingActions i l1) \<le> (if i = d_id d then 1 else 0)"
    using checkAndScale_mongo_console by blast
  obtain l2 where l2:
    "console (scalingMonitorLoop_mongo now ds (checkAndScale_mongo s d now)) =
       console (checkAndScale_mongo s d now) @ l2"
    "\<forall>i. length (scalingActions i l2) \<le> count_list (map d_id ds) i"
    using Cons.IH by blast
  have "\<forall>i. length (scalingActions i (l1 @ l2)) \<le> count_list (map d_id (d # ds)) i"
  proof
    fix i
    from l1(2) have a: "length (scalingActions i l1) \<le> (if i = d_id d then 1 else 0)" by blast
    from l2(2) have b: "length (scalingActions i l2) \<le> count_list (map d_id ds) i" by blast
    from a b show "length (scalingActions i (l1 @ l2)) \<le> count_list (map d_id (d # ds)) i"
      by (auto split: if_splits)
  qed
  with l1(1) l2(1) show ?case by auto
qed

lemma count_list_distinct: "distinct xs \<Longrightarrow> count_list xs x \<le> 1"
  by (induction xs) auto

lemma scalingMonitor_mongo_once:
  assumes "distinct (map d_id (Deployments (db s)))"
  shows "length (scalingActions i (newConsole s (scalingMonitor_mongo s now))) \<le> 1"
proof -
  let ?ds = "filter (\<lambda>d. d_status d = ''active'') (Deployments (db s))"
  obtain ls where ls: "console (scalingMonitorLoop_mongo now ?ds s) = console s @ ls"
    "\<forall>i. length (scalingActions i ls) \<le> count_list (map d_id ?ds) i"
    using scalingMonitorLoop_mongo_console by blast
  from assms have "distinct (map d_id ?ds)" by (simp add: distinct_map_filter)
  then have "count_list (map d_id ?ds) i \<le> 1" by (rule count_list_distinct)
  with ls(2) have "length (scalingActions i ls) \<le> 1" using le_trans by blast
  with ls(1) show ?thesis by (simp add: newConsole_def scalingMonitor_mongo_def)
qed

lemma checkAndScale_redis_console:
  "\<exists>ls. console (checkAndScale_redis s d now) = console s @ ls \<and>
     (\<forall>i. length (scalingActions i ls) \<le> (if i = d_id d then 1 else 0))"
  by (simp add: checkAndScale_redis_def Let_def scaleUp_redis_console scaleDown_redis_console
      scalingActions_def split: option.splits sum.splits)

lemma deploymentKey_simps [simp]:
  "deploymentKey (setDeployment k d r) = (deploymentKey r)(k \<mapsto> d)"
  "deploymentKey (setReplica k2 x r) = deploymentKey r"
  "deploymentKey (delReplica k2 r) = deploymentKey r"
  "deploymentKey (saddReplicas i j r) = deploymentKey r"
  "deploymentKey (sremReplicas i j r) = deploymentKey r"
  "deploymentKey (snd (getNextId t r)) = deploymentKey r"
  by (simp_all add: setDeployment_def setReplica_def delReplica_def saddReplicas_def
      sremReplicas_def getNextId_def Let_def)

lemma keyedOn_scaleUp_redis:
  "keyedOn ks (db s) \<Longrightarrow> keyedOn ks (db (scaleUp_redis s d now))"
  by (auto simp: scaleUp_redis_def Let_def keyedOn_def list_all_iff getNextId_def
      split: option.splits sum.splits prod.splits)

lemma keyedOn_scaleDown_redis:
  "keyedOn ks (db s) \<Longrightarrow> keyedOn ks (db (scaleDown_redis s d now))"
  by (auto simp: scaleDown_redis_def Let_def keyedOn_def list_all_iff split: option.splits)

lemma keyedOn_checkAndScale_redis:
  "keyedOn ks (db s) \<Longrightarrow> keyedOn ks (db (checkAndScale_redis s d now))"
  by (simp add: checkAndScale_redis_def Let_def keyedOn_scaleUp_redis keyedOn_scaleDown_redis
      split: option.splits)

lemma scalingMonitorLoop_redis_console:
  "keyedOn ids (db s) \<Longrightarrow>
   \<exists>ls. console (scalingMonitorLoop_redis now ids s) = console s @ ls \<and>
     (\<forall>i. length (scalingActions i ls) \<le> count_list ids i)"
proof (induction ids arbitrary: s)
  case Nil
  then show ?case by (simp add: scalingActions_def)
next
  case (Cons k ids)
  let ?s1 = "case getDeployment (db s) k of None \<Rightarrow> s
     | Some deployment \<Rightarrow> if d_status deployment = ''active''
         then checkAndScale_redis s deployment now else s"
  have "\<exists>l1. console ?s1 = console s @ l1 \<and>
     (\<forall>i. length (scalingActions i l1) \<le> (if i = k then 1 else 0))"
  proof (cases "getDeployment (db s) k")
    case None
    then show ?thesis by (simp add: scalingActions_def)
  next
    case (Some d)
    with Cons.prems have "d_id d = k" by (simp add: keyedOn_def getDeployment_def)
    with Some checkAndScale_redis_console [of s d now] show ?thesis
      by (auto simp: scalingActions_def)
  qed
  then obtain l1 where l1: "console ?s1 = console s @ l1"
    "\<forall>i. length (scalingActions i l1) \<le> (if i = k then 1 else 0)" by blast
  from Cons.prems have "keyedOn ids (db s)" by (simp add: keyedOn_def)
  then have "keyedOn ids (db ?s1)"
    by (simp add: keyedOn_checkAndScale_redis split: option.splits)
  from Cons.IH [OF this] obtain l2 where l2:
    "console (scalingMonitorLoop_redis now ids ?s1) = console ?s1 @ l2"
    "\<forall>i. length (scalingActions i l2) \<le> count_list ids i" by blast
  have "\<forall>i. length (scalingActions i (l1 @ l2)) \<le> count_list (k # ids) i"
  proof
    fix i
    from l1(2) have a: "length (scalingActions i l1) \<le> (if i = k then 1 else 0)" by blast
    from l2(2) have b: "length (scalingActions i l2) \<le> count_list ids i" by blast
    from a b show "length (scalingActions i (l1 @ l2)) \<le> count_list (k # ids) i"
      by (auto split: if_splits)
  qed
  with l1(1) l2(1) show ?case by auto
qed

lemma scalingMonitor_redis_once:
  assumes "keyed (db s)" "distinct (deploymentsSet (db s))"
  shows "length (scalingActions i (newConsole s (scalingMonitor_redis s now))) \<le> 1"
proof -
  obtain ls where ls: "console (scalingMonitorLoop_redis now (deploymentsSet (db s)) s) = console s @ ls"
    "\<forall>i. length (scalingActions i ls) \<le> count_list (deploymentsSet (db s)) i"
    using scalingMonitorLoop_redis_console [OF assms(1) [unfolded keyed_def]] by blast
  have "count_list (deploymentsSet (db s)) i \<le> 1" using assms(2) by (rule count_list_distinct)
  with ls(2) have "length (scalingActions i ls) \<le> 1" using le_trans by blast
  with ls(1) show ?thesis by (simp add: newConsole_def scalingMonitor_redis_def)
qed

lemma checkAndScale_redis_newConsole:
  assumes "those (map (replicaKey (db s)) (replicasSet (db s) (d_id d))) = Some parsed"
  shows "newConsole s (checkAndScale_redis s d now) =
     LogAverageCpu (d_id d) (avgCpuLoad (filter (\<lambda>r. r_status r = ''active'') parsed)) #
     (if avgCpuLoad (filter (\<lambda>r. r_status r = ''active'') parsed) > cpuThreshold \<and>
         int (length (replicasSet (db s) (d_id d))) < d_maxReplicas d \<and>
         cooldownOver_redis (d_lastScaleUp d) now scaleUpCooldown
      then LogScalingUp (d_id d) #
        (case findAvailableWorker_redis (db s) of
           Inl e \<Rightarrow> [LogErrorScalingUp (d_id d) e]
         | Inr None \<Rightarrow> [LogErrorScalingUp (d_id d) NoAvailableWorkers]
         | Inr (Some w) \<Rightarrow> [])
      else if avgCpuLoad (filter (\<lambda>r. r_status r = ''active'') parsed) < cpuThreshold / 2 \<and>
         int (length (replicasSet (db s) (d_id d))) > d_minReplicas d \<and>
         cooldownOver_redis (d_lastScaleDown d) now scaleDownCooldown
      then [LogScalingDown (d_id d)]
      else [])"
  using assms
  by (simp add: checkAndScale_redis_def Let_def newConsole_def scaleUp_redis_console
      scaleDown_redis_console)

lemma checkAndScale_mongo_newConsole:
  "newConsole s (checkAndScale_mongo s d now) =
     (let replicas = filter (\<lambda>r. r_deploymentId r = d_id d) (Replicas (db s));
          avg = avgCpuLoad (filter (\<lambda>r. r_status r = ''active'') replicas) in
     LogAverageCpu (d_id d) avg #
     (if avg > cpuThreshold \<and> int (length replicas) < d_maxReplicas d \<and>
         cooldownOver_mongo (d_lastScaleUp d) now scaleUpCooldown
      then LogScalingUp (d_id d) #
        (case findAvailableWorker_mongo (db s) of
           None \<Rightarrow> [LogErrorScalingUp (d_id d) NoAvailableWorkers]
         | Some w \<Rightarrow> [])
      else if avg < cpuThreshold / 2 \<and> int (length replicas) > d_minReplicas d \<and>
         cooldownOver_mongo (d_lastScaleDown d) now scaleDownCooldown
      then [LogScalingDown (d_id d)]
      else []))"
  by (simp add: checkAndScale_mongo_def Let_def newConsole_def scaleUp_mongo_console
      scaleDown_mongo_console)

lemma mongo_decision:
  "(let replicas = filter (\<lambda>r. r_deploymentId r = d_id d) (Replicas (db s));
        active = filter (\<lambda>r. r_status r = ''active'') replicas;
        avgCpu = (if active = [] then 0 else sum_list (map cpuOrZero active) / of_nat (length active));
        after = newConsole s (checkAndScale_mongo s d now)
    in (LogScalingUp (d_id d) \<in> set after) =
         (avgCpu > 70 \<and> int (length replicas) < d_maxReplicas d \<and>
          (case d_lastScaleUp d of None \<Rightarrow> True | Some t \<Rightarrow> now - t > 300000)) \<and>
       (LogScalingDown (d_id d) \<in> set after) =
         (avgCpu < 70 / 2 \<and> int (length replicas) > d_minReplicas d \<and>
          (case d_lastScaleDown d of None \<Rightarrow> True | Some t \<Rightarrow> now - t > 600000)) \<and>
       length (filter isScalingAction after) \<le> 1)"
  unfolding checkAndScale_mongo_newConsole Let_def
  by (auto simp add: avgCpuLoad_mean cpuThreshold_def cooldownOver_mongo_def
      scaleUpCooldown_def scaleDownCooldown_def split: option.splits)

lemma redis_decision:
  assumes "those (map (replicaKey (db s)) (replicasSet (db s) (d_id d))) = Some parsed"
      and "d_lastScaleUp d \<noteq> Some 0" and "d_lastScaleDown d \<noteq> Some 0"
  shows
  "(let active = filter (\<lambda>r. r_status r = ''active'') parsed;
        avgCpu = (if active = [] then 0 else sum_list (map cpuOrZero active) / of_nat (length active));
        replicaCount = length (replicasSet (db s) (d_id d));
        after = newConsole s (checkAndScale_redis s d now)
    in (LogScalingUp (d_id d) \<in> set after) =
         (avgCpu > 70 \<and> int replicaCount < d_maxReplicas d \<and>
          (case d_lastScaleUp d of None \<Rightarrow> True | Some t \<Rightarrow> now - t > 300000)) \<and>
       (LogScalingDown (d_id d) \<in> set after) =
         (avgCpu < 70 / 2 \<and> int replicaCount > d_minReplicas d \<and>
          (case d_lastScaleDown d of None \<Rightarrow> True | Some t \<Rightarrow> now - t > 600000)) \<and>
       length (filter isScalingAction after) \<le> 1)"
  unfolding checkAndScale_redis_newConsole [OF assms(1)] Let_def
  using assms(2,3)
  by (auto simp add: avgCpuLoad_mean cpuThreshold_def cooldownOver_redis_def
      scaleUpCooldown_def scaleDownCooldown_def split: option.splits sum.splits)



text \<open>
  The two lemmas above state the scaling rule for one call of \<^verbatim>\<open>checkAndScale\<close>, for
  exactly computed averages: the MongoDB orchestrator follows it on every store, the Redis
  orchestrator when every id of the deployment's replica set resolves to a replica and no
  stamp is the number \<open>0\<close> (which \<^verbatim>\<open>!deployment.lastScaleUp\<close> reads as absent). When an
  id of the set does not resolve, \<^verbatim>\<open>JSON.parse(null)\<close> is \<^verbatim>\<open>null\<close>, the filter
  \<^verbatim>\<open>r => r.status === 'active'\<close> throws on it, and the call only logs the error.
\<close>

lemma checkAndScale_redis_dangling:
  "those (map (replicaKey (db s)) (replicasSet (db s) (d_id d))) = None \<Longrightarrow>
   checkAndScale_redis s d now = consoleLog (LogErrorChecking (d_id d) TypeError) s"
  by (simp add: checkAndScale_redis_def)







section \<open>Scale-up and scale-down\<close>


lemma newEmitted_append [simp]: "emitted s' = emitted s @ ms \<Longrightarrow> newEmitted s s' = ms"
  by (simp add: newEmitted_def)

lemma find_updateFirst:
  "(\<And>x. P x \<Longrightarrow> P (f x)) \<Longrightarrow> find P (updateFirst P f xs) = map_option f (find P xs)"
  by (induction xs) auto

lemma find_updateFirst_const:
  "find P xs = Some y \<Longrightarrow> P z \<Longrightarrow> find P (updateFirst P (\<lambda>x. z) xs) = Some z"
  by (induction xs) (auto split: if_splits)

lemma map_updateFirst:
  "(\<And>x. g (f x) = g x) \<Longrightarrow> map g (updateFirst P f xs) = map g xs"
  by (induction xs) auto

lemma scaleUp_redis_found:
  assumes "findAvailableWorker_redis (db s) = Inr (Some w)"
  shows "(let s' = scaleUp_redis s d now;
              replicaId = counter (db s) ''replica'' + 1;
              replicaNumber = length (d_workers d) + 1
          in replicaKey (db s') replicaId =
               Some \<lparr>r_id = replicaId, r_deploymentId = d_id d, r_status = ''pending'',
                     r_replicaNumber = replicaNumber, r_metrics = None, r_createdAt = None\<rparr> \<and>
             replicaId \<in> set (replicasSet (db s') (d_id d)) \<and>
             deploymentKey (db s') (d_id d) =
               Some (d\<lparr>d_lastScaleUp := Some now,
                        d_workers := d_workers d @
                          [\<lparr>a_workerId = w_id w, a_replicaId = replicaNumber,
                            a_status = ''pending''\<rparr>]\<rparr>) \<and>
             newEmitted s s' =
               [(w_socketId w, ''deploymentTask'',
                 DeploymentTask (d_id d) replicaNumber (d_githubRepo d) now)])"
  using assms
  by (simp add: scaleUp_redis_def Let_def getNextId_def setReplica_def saddReplicas_def
      setDeployment_def sadd_def)

lemma scaleUp_mongo_found:
  assumes "findAvailableWorker_mongo (db s) = Some w"
      and "findDeploymentById (db s) (d_id d) = Some d0"
  shows "(let s' = scaleUp_mongo s d now;
              replicaNumber = length (d_workers d) + 1
          in Replicas (db s') = Replicas (db s) @
               [\<lparr>r_id = nextObjectId (db s), r_deploymentId = d_id d, r_status = ''pending'',
                 r_replicaNumber = replicaNumber, r_metrics = None, r_createdAt = Some now\<rparr>] \<and>
             findDeploymentById (db s') (d_id d) =
               Some (d\<lparr>d_lastScaleUp := Some now,
                        d_workers := d_workers d @
                          [\<lparr>a_workerId = w_id w, a_replicaId = replicaNumber,
                            a_status = ''pending''\<rparr>]\<rparr>) \<and>
             newEmitted s s' =
               [(w_socketId w, ''deploymentTask'',
                 DeploymentTask (d_id d) replicaNumber (d_githubRepo d) now)])"
  using assms
  by (simp add: scaleUp_mongo_def Let_def newObjectId_def findDeploymentById_def
      saveDeployment_def find_updateFirst_const)

text \<open>
  Claim C2 says that a scale-up sends the chosen worker a \<^verbatim>\<open>deployRepository\<close> message
  with \<^verbatim>\<open>deploymentDir\<close>, \<^verbatim>\<open>repoUrl\<close>, \<^verbatim>\<open>replicaId\<close>, \<^verbatim>\<open>deploymentId\<close> and
  \<^verbatim>\<open>deploymentTime\<close>. On the example stores both orchestrators persist the pending
  replica, the assignment and the stamp (the two lemmas above), and the only message they
  emit is a \<^verbatim>\<open>deploymentTask\<close> with \<^verbatim>\<open>deploymentId\<close>, \<^verbatim>\<open>replicaId\<close>,
  \<^verbatim>\<open>githubRepo\<close> and \<^verbatim>\<open>deploymentTime\<close>, an event the worker agent does not handle.
\<close>

theorem scaleUp_emits_deploymentTask:
  "newEmitted redisOrchestrator (scaleUp_redis redisOrchestrator webDeployment 1700000000000) =
     [(''sock-a'', ''deploymentTask'',
       DeploymentTask 1 3 ''https://github.com/acme/app.git'' 1700000000000)] \<and>
   newEmitted mongoOrchestrator (scaleUp_mongo mongoOrchestrator webDeployment 1700000000000) =
     [(''sock-a'', ''deploymentTask'',
       DeploymentTask 1 3 ''https://github.com/acme/app.git'' 1700000000000)]"
proof -
  have r: "findAvailableWorker_redis (db redisOrchestrator) = Inr (Some workerA)"
    by (simp add: findAvailableWorker_redis_def example_defs)
  have m: "findAvailableWorker_mongo (db mongoOrchestrator) = Some workerA"
    by (simp add: findAvailableWorker_mongo_def example_defs eligible_def cpuKey_def)
  have d: "findDeploymentById (db mongoOrchestrator) (d_id webDeployment) = Some webDeployment"
    by (simp add: findDeploymentById_def example_defs)
  from scaleUp_redis_found [OF r, of webDeployment 1700000000000]
    scaleUp_mongo_found [OF m d, of 1700000000000]
  show ?thesis
    by (simp add: Let_def workerA_def webDeployment_def)
qed








text \<open>The Redis orchestrator passes the tail's \<^verbatim>\<open>replicaNumber\<close> to \<^verbatim>\<open>srem\<close> and
  \<^verbatim>\<open>del\<close>, where the replica's id is the key: scaling deployment \<open>2\<close> down deletes
  replica \<open>1\<close>, which belongs to deployment \<open>1\<close>, and keeps its own.\<close>

lemma scaleDown_redis_deletes_by_number:
  "replicaKey (db (scaleDown_redis redisOrchestrator apiDeployment 1700000000000)) 1 = None \<and>
   replicaKey (db (scaleDown_redis redisOrchestrator apiDeployment 1700000000000)) 3 =
     Some apiReplica1 \<and>
   replicasSet (db (scaleDown_redis redisOrchestrator apiDeployment 1700000000000)) 2 = [3]"
  by (simp add: scaleDown_redis_def Let_def setDeployment_def sremReplicas_def delReplica_def
      srem_def example_defs)





section \<open>Worker registration\<close>

lemma set_deleteFirst: "set (deleteFirst P xs) \<subseteq> set xs"
  by (induction xs) auto

lemma distinct_map_deleteFirst:
  "distinct (map f xs) \<Longrightarrow> distinct (map f (deleteFirst P xs))"
proof (induction xs)
  case Nil
  then show ?case by simp
next
  case (Cons x xs)
  have "f x \<notin> f ` set (deleteFirst P xs)"
    using Cons.prems set_deleteFirst [of P xs] by auto
  with Cons show ?case by simp
qed

lemma registerWorker_mongo_hostnames:
  "distinct (map w_hostname (Workers (db s))) \<Longrightarrow>
   distinct (map w_hostname (Workers (db (registerWorker_mongo s socketId hostname now))))"
  by (auto simp add: registerWorker_mongo_def Let_def newObjectId_def distinct_map_filter)

lemma disconnect_mongo_hostnames:
  "distinct (map w_hostname (Workers (db s))) \<Longrightarrow>
   distinct (map w_hostname (Workers (db (disconnect_mongo s socketId))))"
  by (simp add: disconnect_mongo_def distinct_map_deleteFirst split: option.splits)

lemma handle_mongo_hostnames:
  "distinct (map w_hostname (Workers (db s))) \<Longrightarrow>
   distinct (map w_hostname (Workers (db (handle_mongo s e))))"
  by (cases e) (simp_all add: registerWorker_mongo_hostnames disconnect_mongo_hostnames)

lemma foldl_handle_mongo_hostnames:
  "distinct (map w_hostname (Workers (db s))) \<Longrightarrow>
   distinct (map w_hostname (Workers (db (foldl handle_mongo s es))))"
  by (induction es arbitrary: s) (simp_all add: handle_mongo_hostnames)

lemma distinct_map_filter_le1:
  "distinct (map f xs) \<Longrightarrow> length (filter (\<lambda>x. f x = y) xs) \<le> 1"
proof (induction xs)
  case Nil
  then show ?case by simp
next
  case (Cons x xs)
  show ?case
  proof (cases "f x = y")
    case True
    from Cons.prems have "f x \<notin> f ` set xs" by simp
    with True have "\<forall>z\<in>set xs. f z \<noteq> y" by blast
    then have "filter (\<lambda>x. f x = y) xs = []" by (simp add: filter_empty_conv)
    with True show ?thesis by simp
  next
    case False
    with Cons show ?thesis by simp
  qed
qed

lemma mongo_one_worker_per_hostname:
  "length (filter (\<lambda>w. w_hostname w = hostname)
     (Workers (db (foldl handle_mongo emptyMongo es)))) \<le> 1"
proof -
  have "distinct (map w_hostname (Workers (db emptyMongo)))" by (simp add: emptyMongo_def)
  then have "distinct (map w_hostname (Workers (db (foldl handle_mongo emptyMongo es))))"
    by (rule foldl_handle_mongo_hostnames)
  then show ?thesis by (rule distinct_map_filter_le1)
qed

lemma registerWorker_mongo_record:
  "filter (\<lambda>w. w_hostname w = hostname)
     (Workers (db (registerWorker_mongo s socketId hostname now))) =
   [\<lparr>w_id = nextObjectId (db s), w_hostname = hostname, w_socketId = socketId,
     w_status = ''active'', w_lastHeartbeat = now, w_currentLoad = None\<rparr>]"
  by (simp add: registerWorker_mongo_def Let_def newObjectId_def filter_empty_conv)

text \<open>
  Claim C4 says that after any sequence of \<^verbatim>\<open>registerWorker\<close> and \<^verbatim>\<open>disconnect\<close>
  events at most one worker record per hostname is stored. The MongoDB handler purges the
  hostname before it saves (the lemmas above); the Redis handler does not: two registrations
  of one hostname from two sockets leave two records.
\<close>

theorem registerWorker_redis_duplicates:
  "workersNamed ''host-a''
     (db (foldl handle_redis emptyRedis
        [RegisterWorker ''sock-1'' ''host-a'' 1700000000000,
         RegisterWorker ''sock-2'' ''host-a'' 1700000060000])) =
   [\<lparr>w_id = 1, w_hostname = ''host-a'', w_socketId = ''sock-1'', w_status = ''active'',
     w_lastHeartbeat = 1700000000000, w_currentLoad = None\<rparr>,
    \<lparr>w_id = 2, w_hostname = ''host-a'', w_socketId = ''sock-2'', w_status = ''active'',
     w_lastHeartbeat = 1700000060000, w_currentLoad = None\<rparr>]"
  by (simp add: workersNamed_def storedWorkers_def emptyRedis_def registerWorker_redis_def
      getNextId_def setWorker_def sadd_def Let_def)



section \<open>Distribution to the workers\<close>

lemma deploymentPath_consoleLog [simp]: "deploymentPath (consoleLog l s) = deploymentPath s"
  by (simp add: consoleLog_def)

lemma deploymentPath_emit [simp]: "deploymentPath (emit a b c s) = deploymentPath s"
  by (simp add: emit_def)

lemma dispatchLoop_complete:
  "\<forall>x\<in>set refs. \<not> isl (lookup (a_workerId x)) \<Longrightarrow>
   fst (dispatchLoop lookup d ri now refs s) = None \<and>
   db (snd (dispatchLoop lookup d ri now refs s)) = db s \<and>
   emitted (snd (dispatchLoop lookup d ri now refs s)) =
     emitted s @ deployMessages lookup (deploymentPath s) d ri now refs"
proof (induction refs arbitrary: s)
  case Nil
  then show ?case by (simp add: deployMessages_def)
next
  case (Cons r refs)
  from Cons.prems have rest: "\<forall>x\<in>set refs. \<not> isl (lookup (a_workerId x))" by simp
  from Cons.prems obtain w where w: "lookup (a_workerId r) = Inr w"
    by (cases "lookup (a_workerId r)") auto
  show ?case
  proof (cases w)
    case None
    with w Cons.IH [OF rest, of "consoleLog (LogWorkerNotFound (a_workerId r)) s"]
    show ?thesis by (simp add: deployMessages_def)
  next
    case (Some worker)
    with w Cons.IH [OF rest, of "consoleLog (LogTaskSent (w_hostname worker))
        (emit (w_socketId worker) ''deployRepository''
          (DeployRepository (deploymentDir (deploymentPath s) (d_id d) (a_replicaId r))
             (clone_url ri) (a_replicaId r) (d_id d) now) s)"]
    show ?thesis by (simp add: deployMessages_def)
  qed
qed

lemma dispatchLoop_interrupted:
  "\<forall>x\<in>set pre. \<not> isl (lookup (a_workerId x)) \<Longrightarrow> lookup (a_workerId r) = Inl e \<Longrightarrow>
   fst (dispatchLoop lookup d ri now (pre @ r # post) s) = Some e \<and>
   db (snd (dispatchLoop lookup d ri now (pre @ r # post) s)) = db s \<and>
   emitted (snd (dispatchLoop lookup d ri now (pre @ r # post) s)) =
     emitted s @ deployMessages lookup (deploymentPath s) d ri now pre"
proof (induction pre arbitrary: s)
  case Nil
  then show ?case by (simp add: deployMessages_def)
next
  case (Cons p pre)
  from Cons.prems have rest: "\<forall>x\<in>set pre. \<not> isl (lookup (a_workerId x))" by simp
  from Cons.prems obtain w where w: "lookup (a_workerId p) = Inr w"
    by (cases "lookup (a_workerId p)") auto
  show ?case
  proof (cases w)
    case None
    with w Cons.IH [OF rest Cons.prems(2), of "consoleLog (LogWorkerNotFound (a_workerId p)) s"]
    show ?thesis by (simp add: deployMessages_def)
  next
    case (Some worker)
    with w Cons.IH [OF rest Cons.prems(2), of "consoleLog (LogTaskSent (w_hostname worker))
        (emit (w_socketId worker) ''deployRepository''
          (DeployRepository (deploymentDir (deploymentPath s) (d_id d) (a_replicaId p))
             (clone_url ri) (a_replicaId p) (d_id d) now) s)"]
    show ?thesis by (simp add: deployMessages_def)
  qed
qed

lemma distributeToWorkers_complete:
  assumes "\<forall>x\<in>set (d_workers d). \<not> isl (lookup (a_workerId x))"
  shows "fst (distributeToWorkers lookup save s d ri now) = Inr (d\<lparr>d_status := ''active''\<rparr>) \<and>
         db (snd (distributeToWorkers lookup save s d ri now)) =
           save (d\<lparr>d_status := ''active''\<rparr>) (db s) \<and>
         newEmitted s (snd (distributeToWorkers lookup save s d ri now)) =
           deployMessages lookup (deploymentPath s) d ri now (d_workers d)"
  using dispatchLoop_complete [OF assms, of d ri now s]
  by (cases "dispatchLoop lookup d ri now (d_workers d) s")
    (auto simp: distributeToWorkers_def Let_def newEmitted_def)

lemma distributeToWorkers_interrupted:
  assumes "d_workers d = pre @ r # post"
      and "\<forall>x\<in>set pre. \<not> isl (lookup (a_workerId x))"
      and "lookup (a_workerId r) = Inl e"
  shows "fst (distributeToWorkers lookup save s d ri now) = Inl e \<and>
         db (snd (distributeToWorkers lookup save s d ri now)) =
           save (d\<lparr>d_status := ''failed''\<rparr>) (db s) \<and>
         newEmitted s (snd (distributeToWorkers lookup save s d ri now)) =
           deployMessages lookup (deploymentPath s) d ri now pre"
  using dispatchLoop_interrupted [OF assms(2,3), of d ri now post s] assms(1)
  by (cases "dispatchLoop lookup d ri now (d_workers d) s")
    (auto simp: distributeToWorkers_def Let_def newEmitted_def)

lemma deploymentKey_setDeployment_same [simp]:
  "deploymentKey (setDeployment k d r) k = Some d"
  by (simp add: setDeployment_def)

text \<open>
  Claim C6, amended. \<^verbatim>\<open>distributeToWorkers\<close> sends \<^verbatim>\<open>deployRepository\<close> to every
  assignment whose worker record it finds, in order, skips an assignment whose worker is
  gone (that raises nothing), then stores the deployment with status \<^verbatim>\<open>active\<close> and
  returns it. Only an error thrown inside the loop (a rejected lookup) makes it store the
  deployment with status \<^verbatim>\<open>failed\<close>; the messages sent before stay sent and the
  error is rethrown.
\<close>

theorem distributeToWorkers_outcome:
  "(let out = distributeToWorkers_redis sr d ri now
    in fst out = Inr (d\<lparr>d_status := ''active''\<rparr>) \<and>
       deploymentKey (db (snd out)) (d_id d) = Some (d\<lparr>d_status := ''active''\<rparr>) \<and>
       newEmitted sr (snd out) =
         deployMessages (\<lambda>workerId. Inr (workerKey (db sr) workerId))
           (deploymentPath sr) d ri now (d_workers d)) \<and>
   (let out = distributeToWorkers_mongo sm d ri now
    in fst out = Inr (d\<lparr>d_status := ''active''\<rparr>) \<and>
       db (snd out) = saveDeployment (d\<lparr>d_status := ''active''\<rparr>) (db sm) \<and>
       newEmitted sm (snd out) =
         deployMessages (\<lambda>workerId. Inr (findWorkerById (db sm) workerId))
           (deploymentPath sm) d ri now (d_workers d)) \<and>
   (d_workers e = pre @ r # post \<and>
    (\<forall>x\<in>set pre. \<not> isl (lookup (a_workerId x))) \<and>
    lookup (a_workerId r) = Inl err \<longrightarrow>
      (let out = distributeToWorkers lookup save s e ri now
       in fst out = Inl err \<and>
          db (snd out) = save (e\<lparr>d_status := ''failed''\<rparr>) (db s) \<and>
          newEmitted s (snd out) = deployMessages lookup (deploymentPath s) e ri now pre))"
proof -
  have r: "\<forall>x\<in>set (d_workers d). \<not> isl (Inr (workerKey (db sr) (a_workerId x)) :: error + worker option)"
    by simp
  have m: "\<forall>x\<in>set (d_workers d). \<not> isl (Inr (findWorkerById (db sm) (a_workerId x)) :: error + worker option)"
    by simp
  show ?thesis
    using distributeToWorkers_complete [OF r, of "\<lambda>d. setDeployment (d_id d) d" sr ri now]
      distributeToWorkers_complete [OF m, of saveDeployment sm ri now]
      distributeToWorkers_interrupted [of e pre r post lookup err save s ri now]
    by (simp add: distributeToWorkers_redis_def distributeToWorkers_mongo_def Let_def)
qed

lemma decimal_simps:
  "decimal (Suc 0) = ''1''" "decimal 1 = ''1''" "decimal 2 = ''2''" "decimal 3 = ''3''"
  by (simp_all add: decimal.simps digitChar_def)

text \<open>
  Against claim C6 as stated: with the chosen worker gone, neither orchestrator raises an
  error or marks the deployment failed; the dispatch is skipped with a console line, nothing
  is sent and the deployment is returned with status \<^verbatim>\<open>active\<close>.
\<close>

theorem distributeToWorkers_skips_missing_worker:
  "fst (distributeToWorkers_redis redisOrchestrator orphanDeployment exampleRepo 1700000000000) =
     Inr (orphanDeployment\<lparr>d_status := ''active''\<rparr>) \<and>
   emitted (snd (distributeToWorkers_redis redisOrchestrator orphanDeployment exampleRepo
     1700000000000)) = [] \<and>
   console (snd (distributeToWorkers_redis redisOrchestrator orphanDeployment exampleRepo
     1700000000000)) = [LogWorkerNotFound 9] \<and>
   fst (distributeToWorkers_mongo mongoOrchestrator orphanDeployment exampleRepo 1700000000000) =
     Inr (orphanDeployment\<lparr>d_status := ''active''\<rparr>) \<and>
   emitted (snd (distributeToWorkers_mongo mongoOrchestrator orphanDeployment exampleRepo
     1700000000000)) = [] \<and>
   console (snd (distributeToWorkers_mongo mongoOrchestrator orphanDeployment exampleRepo
     1700000000000)) = [LogWorkerNotFound 9]"
  by (simp add: distributeToWorkers_redis_def distributeToWorkers_mongo_def
      distributeToWorkers_def orphanDeployment_def findWorkerById_def example_defs Let_def)

text \<open>Witness for C6: deployment \<open>1\<close> of the example stores, dispatched with the
  store's own lookup and with the lookup that is rejected for its second worker.\<close>

theorem distributeToWorkers_outcome_witness:
  "d_workers webDeployment =
     [\<lparr>a_workerId = 1, a_replicaId = 1, a_status = ''active''\<rparr>] @
     \<lparr>a_workerId = 2, a_replicaId = 2, a_status = ''active''\<rparr> # [] \<and>
   \<not> isl (flakyLookup 1) \<and> flakyLookup 2 = Inl StoreFailure \<and>
   fst (distributeToWorkers_redis redisOrchestrator webDeployment exampleRepo 1700000000000) =
     Inr (webDeployment\<lparr>d_status := ''active''\<rparr>) \<and>
   newEmitted redisOrchestrator
     (snd (distributeToWorkers_redis redisOrchestrator webDeployment exampleRepo 1700000000000)) =
     [(''sock-a'', ''deployRepository'',
       DeployRepository ''./deployments/1_1'' ''https://github.com/acme/app.git'' 1 1
         1700000000000),
      (''sock-b'', ''deployRepository'',
       DeployRepository ''./deployments/1_2'' ''https://github.com/acme/app.git'' 2 1
         1700000000000)] \<and>
   fst (distributeToWorkers_mongo mongoOrchestrator webDeployment exampleRepo 1700000000000) =
     Inr (webDeployment\<lparr>d_status := ''active''\<rparr>) \<and>
   fst (distributeToWorkers flakyLookup (\<lambda>d. setDeployment (d_id d) d) redisOrchestrator
     webDeployment exampleRepo 1700000000000) = Inl StoreFailure \<and>
   deploymentKey (db (snd (distributeToWorkers flakyLookup (\<lambda>d. setDeployment (d_id d) d)
     redisOrchestrator webDeployment exampleRepo 1700000000000))) 1 =
     Some (webDeployment\<lparr>d_status := ''failed''\<rparr>) \<and>
   newEmitted redisOrchestrator
     (snd (distributeToWorkers flakyLookup (\<lambda>d. setDeployment (d_id d) d) redisOrchestrator
        webDeployment exampleRepo 1700000000000)) =
     [(''sock-a'', ''deployRepository'',
       DeployRepository ''./deployments/1_1'' ''https://github.com/acme/app.git'' 1 1
         1700000000000)]"
proof -
  have h: "d_workers webDeployment =
     [\<lparr>a_workerId = 1, a_replicaId = 1, a_status = ''active''\<rparr>] @
     \<lparr>a_workerId = 2, a_replicaId = 2, a_status = ''active''\<rparr> # []"
    "\<forall>x\<in>set [\<lparr>a_workerId = 1, a_replicaId = 1, a_status = ''active''\<rparr>].
       \<not> isl (flakyLookup (a_workerId x))"
    "flakyLookup (a_workerId \<lparr>a_workerId = 2, a_replicaId = 2, a_status = ''active''\<rparr>) =
       Inl StoreFailure"
    by (simp_all add: webDeployment_def flakyLookup_def)
  note T = distributeToWorkers_outcome [of redisOrchestrator webDeployment exampleRepo
      1700000000000 mongoOrchestrator webDeployment
      "[\<lparr>a_workerId = 1, a_replicaId = 1, a_status = ''active''\<rparr>]"
      "\<lparr>a_workerId = 2, a_replicaId = 2, a_status = ''active''\<rparr>" "[]" flakyLookup
      StoreFailure "\<lambda>d. setDeployment (d_id d) d" redisOrchestrator, unfolded Let_def]
  from T have c1:
    "fst (distributeToWorkers_redis redisOrchestrator webDeployment exampleRepo 1700000000000) =
       Inr (webDeployment\<lparr>d_status := ''active''\<rparr>)"
    and c2: "newEmitted redisOrchestrator
       (snd (distributeToWorkers_redis redisOrchestrator webDeployment exampleRepo 1700000000000)) =
       deployMessages (\<lambda>workerId. Inr (workerKey (db redisOrchestrator) workerId))
         (deploymentPath redisOrchestrator) webDeployment exampleRepo 1700000000000
         (d_workers webDeployment)"
    and c3:
    "fst (distributeToWorkers_mongo mongoOrchestrator webDeployment exampleRepo 1700000000000) =
       Inr (webDeployment\<lparr>d_status := ''active''\<rparr>)"
    by blast+
  from T h have c4:
    "fst (distributeToWorkers flakyLookup (\<lambda>d. setDeployment (d_id d) d) redisOrchestrator
       webDeployment exampleRepo 1700000000000) = Inl StoreFailure"
    and c5: "db (snd (distributeToWorkers flakyLookup (\<lambda>d. setDeployment (d_id d) d)
       redisOrchestrator webDeployment exampleRepo 1700000000000)) =
       setDeployment (d_id (webDeployment\<lparr>d_status := ''failed''\<rparr>))
         (webDeployment\<lparr>d_status := ''failed''\<rparr>) (db redisOrchestrator)"
    and c6: "newEmitted redisOrchestrator
       (snd (distributeToWorkers flakyLookup (\<lambda>d. setDeployment (d_id d) d) redisOrchestrator
          webDeployment exampleRepo 1700000000000)) =
       deployMessages flakyLookup (deploymentPath redisOrchestrator) webDeployment exampleRepo
         1700000000000 [\<lparr>a_workerId = 1, a_replicaId = 1, a_status = ''active''\<rparr>]"
    by blast+
  have e1: "deployMessages (\<lambda>workerId. Inr (workerKey (db redisOrchestrator) workerId))
         (deploymentPath redisOrchestrator) webDeployment exampleRepo 1700000000000
         (d_workers webDeployment) =
     [(''sock-a'', ''deployRepository'',
       DeployRepository ''./deployments/1_1'' ''https://github.com/acme/app.git'' 1 1
         1700000000000),
      (''sock-b'', ''deployRepository'',
       DeployRepository ''./deployments/1_2'' ''https://github.com/acme/app.git'' 2 1
         1700000000000)]"
    by (simp add: deployMessages_def deploymentDir_def decimal_simps digitChar_def
        exampleRepo_def example_defs)
  have e2: "deployMessages flakyLookup (deploymentPath redisOrchestrator) webDeployment
         exampleRepo 1700000000000
         [\<lparr>a_workerId = 1, a_replicaId = 1, a_status = ''active''\<rparr>] =
     [(''sock-a'', ''deployRepository'',
       DeployRepository ''./deployments/1_1'' ''https://github.com/acme/app.git'' 1 1
         1700000000000)]"
    by (simp add: deployMessages_def deploymentDir_def decimal_simps digitChar_def
        flakyLookup_def exampleRepo_def example_defs)
  have e3: "d_id (webDeployment\<lparr>d_status := ''failed''\<rparr>) = 1"
    by (simp add: webDeployment_def)
  have e4: "\<not> isl (flakyLookup 1)" "flakyLookup 2 = Inl StoreFailure"
    by (simp_all add: flakyLookup_def)
  show ?thesis
    unfolding c1 c2 c3 c4 c5 c6 e1 e2 e3 using h(1) e4 by simp
qed



section \<open>Status reports\<close>

lemma find_Some_P: "find P xs = Some x \<Longrightarrow> P x"
  by (induction xs) (auto split: if_splits)

lemma deploymentStatus_mongo_updates:
  assumes "findDeploymentById (db s) (su_deploymentId u) = Some d"
      and "su_status u \<in> set assignmentStatuses"
  shows "(case findIndex (\<lambda>w. a_replicaId w = su_replicaId u) (d_workers d) of
            None \<Rightarrow> Deployments (db (deploymentStatus_mongo s u)) = Deployments (db s)
          | Some i \<Rightarrow>
              findDeploymentById (db (deploymentStatus_mongo s u)) (su_deploymentId u) =
                Some (d\<lparr>d_workers := (d_workers d)[i := (d_workers d ! i)\<lparr>a_status := su_status u\<rparr>]\<rparr>)) \<and>
         find (\<lambda>r. r_deploymentId r = su_deploymentId u \<and> r_replicaNumber r = su_replicaId u)
           (Replicas (db (deploymentStatus_mongo s u))) =
         map_option (\<lambda>r. r\<lparr>r_status := su_status u,
                            r_metrics := (case su_metrics u of
                                            None \<Rightarrow> r_metrics r
                                          | Some metrics \<Rightarrow> Some metrics)\<rparr>)
           (find (\<lambda>r. r_deploymentId r = su_deploymentId u \<and> r_replicaNumber r = su_replicaId u)
              (Replicas (db s))) \<and>
         map r_id (Replicas (db (deploymentStatus_mongo s u))) = map r_id (Replicas (db s))"
proof -
  from assms have id: "d_id d = su_deploymentId u"
    using find_Some_P [of "\<lambda>d. d_id d = su_deploymentId u" "Deployments (db s)" d]
    by (simp add: findDeploymentById_def)
  show ?thesis
    using assms id
    by (simp add: deploymentStatus_mongo_def updateReplica_mongo_def Let_def
        findDeploymentById_def saveDeployment_def find_updateFirst_const find_updateFirst
        map_updateFirst split: option.splits)
qed

lemma deploymentStatus_mongo_rejected:
  assumes "findDeploymentById (db s) (su_deploymentId u) = Some d"
      and "findIndex (\<lambda>w. a_replicaId w = su_replicaId u) (d_workers d) = Some i"
      and "su_status u \<notin> set assignmentStatuses"
  shows "deploymentStatus_mongo s u = s"
  using assms by (simp add: deploymentStatus_mongo_def)

text \<open>
  Claim C7 says that a \<^verbatim>\<open>deploymentStatus\<close> event updates the assignment with the
  reported replica number and the replica of that deployment with that number. The
  MongoDB handler does for every status its schema admits (lemma
  \<^verbatim>\<open>deploymentStatus_mongo_updates\<close> above). The Redis handler uses the number as the key of the
  replica: a report for replica number \<open>1\<close> of deployment \<open>2\<close> leaves that replica
  (id \<open>3\<close>) pending and overwrites status and metrics of replica \<open>1\<close>, which belongs
  to deployment \<open>1\<close>. The assignment is updated in both.
\<close>

theorem deploymentStatus_redis_wrong_replica:
  "replicaKey (db (deploymentStatus_redis redisOrchestrator apiReport)) 3 = Some apiReplica1 \<and>
   replicaKey (db (deploymentStatus_redis redisOrchestrator apiReport)) 1 =
     Some (webReplica1\<lparr>r_status := ''active'',
                       r_metrics := Some \<lparr>cpuUsage = 5, memoryUsage = 6\<rparr>\<rparr>) \<and>
   deploymentKey (db (deploymentStatus_redis redisOrchestrator apiReport)) 2 =
     Some (apiDeployment\<lparr>d_workers :=
       [\<lparr>a_workerId = 1, a_replicaId = 1, a_status = ''active''\<rparr>]\<rparr>) \<and>
   find (\<lambda>r. r_deploymentId r = 2 \<and> r_replicaNumber r = 1)
     (Replicas (db (deploymentStatus_mongo mongoOrchestrator apiReport))) =
     Some (apiReplica1\<lparr>r_status := ''active'',
                       r_metrics := Some \<lparr>cpuUsage = 5, memoryUsage = 6\<rparr>\<rparr>)"
  by (simp add: deploymentStatus_redis_def deploymentStatus_mongo_def updateReplica_mongo_def
      assignmentStatuses_def getDeployment_def findDeploymentById_def saveDeployment_def
      setDeployment_def setReplica_def apiReport_def example_defs Let_def)



section \<open>Deployment creation\<close>

lemma normalizedUrl_example:
  "normalizedUrl ''https://github.com/https://github.com/acme/app.git'' = ''acme/app''"
  by (simp add: normalizedUrl_def stripLeadingPrefixes.simps stripGitSuffix_def stripOnePrefix_def
      githubPrefix_def gitSuffix_def suffix_def)

lemma canonicalCloneUrl_example:
  "canonicalCloneUrl ''https://github.com/https://github.com/acme/app.git'' =
     ''https://github.com/acme/app.git''"
  by (simp add: canonicalCloneUrl_def normalizedUrl_example githubPrefix_def gitSuffix_def)

lemma validate_example:
  "validateGithubRepo exampleApi (rq_githubRepo exampleRequest) = Some exampleRepo"
  by (simp add: validateGithubRepo_def exampleRequest_def normalizedUrl_example exampleApi_def)

lemma distributeToWorkers_Inr:
  "fst (distributeToWorkers lookup save s d ri now) = Inr d' \<Longrightarrow> d' = d\<lparr>d_status := ''active''\<rparr>"
  by (cases "dispatchLoop lookup d ri now (d_workers d) s")
    (auto simp: distributeToWorkers_def Let_def split: option.splits)

lemma deployRepository_redis_created:
  assumes "fst (deployRepository_redis api s req now) = Inr d"
  shows "d_minReplicas d = (case rq_minReplicas req of None \<Rightarrow> 1 | Some m \<Rightarrow> m) \<and>
         d_maxReplicas d = (case rq_maxReplicas req of None \<Rightarrow> 3 | Some m \<Rightarrow> m)"
  using assms
  by (auto simp: deployRepository_redis_def distributeToWorkers_redis_def Let_def
      split: option.splits sum.splits if_splits prod.splits dest!: distributeToWorkers_Inr)

lemma deployRepository_mongo_created:
  assumes "fst (deployRepository_mongo api s req now) = Inr d"
  shows "d_minReplicas d = (case rq_minReplicas req of None \<Rightarrow> 1 | Some m \<Rightarrow> m) \<and>
         d_maxReplicas d = (case rq_maxReplicas req of None \<Rightarrow> 3 | Some m \<Rightarrow> m)"
  using assms
  by (auto simp: deployRepository_mongo_def distributeToWorkers_mongo_def Let_def
      split: option.splits sum.splits if_splits prod.splits dest!: distributeToWorkers_Inr)

text \<open>
  Claim C9. A deploy request without \<^verbatim>\<open>minReplicas\<close> is handled exactly as the same
  request with \<^verbatim>\<open>minReplicas = 1\<close>, one without \<^verbatim>\<open>maxReplicas\<close> exactly as with
  \<^verbatim>\<open>maxReplicas = 3\<close> (same answer, same store, messages and console), and a
  deployment created from a request that gives both carries the given values.
\<close>

theorem deployRepository_defaults:
  "deployRepository_redis api sr (req\<lparr>rq_minReplicas := None\<rparr>) now =
     deployRepository_redis api sr (req\<lparr>rq_minReplicas := Some 1\<rparr>) now \<and>
   deployRepository_redis api sr (req\<lparr>rq_maxReplicas := None\<rparr>) now =
     deployRepository_redis api sr (req\<lparr>rq_maxReplicas := Some 3\<rparr>) now \<and>
   deployRepository_mongo api sm (req\<lparr>rq_minReplicas := None\<rparr>) now =
     deployRepository_mongo api sm (req\<lparr>rq_minReplicas := Some 1\<rparr>) now \<and>
   deployRepository_mongo api sm (req\<lparr>rq_maxReplicas := None\<rparr>) now =
     deployRepository_mongo api sm (req\<lparr>rq_maxReplicas := Some 3\<rparr>) now \<and>
   (rq_minReplicas req = Some m \<and> rq_maxReplicas req = Some n \<and>
    fst (deployRepository_redis api sr req now) = Inr dr \<longrightarrow>
      d_minReplicas dr = m \<and> d_maxReplicas dr = n) \<and>
   (rq_minReplicas req = Some m \<and> rq_maxReplicas req = Some n \<and>
    fst (deployRepository_mongo api sm req now) = Inr dm \<longrightarrow>
      d_minReplicas dm = m \<and> d_maxReplicas dm = n)"
proof -
  have "deployRepository_redis api sr (req\<lparr>rq_minReplicas := None\<rparr>) now =
     deployRepository_redis api sr (req\<lparr>rq_minReplicas := Some 1\<rparr>) now"
    by (simp add: deployRepository_redis_def)
  moreover have "deployRepository_redis api sr (req\<lparr>rq_maxReplicas := None\<rparr>) now =
     deployRepository_redis api sr (req\<lparr>rq_maxReplicas := Some 3\<rparr>) now"
    by (simp add: deployRepository_redis_def)
  moreover have "deployRepository_mongo api sm (req\<lparr>rq_minReplicas := None\<rparr>) now =
     deployRepository_mongo api sm (req\<lparr>rq_minReplicas := Some 1\<rparr>) now"
    by (simp add: deployRepository_mongo_def)
  moreover have "deployRepository_mongo api sm (req\<lparr>rq_maxReplicas := None\<rparr>) now =
     deployRepository_mongo api sm (req\<lparr>rq_maxReplicas := Some 3\<rparr>) now"
    by (simp add: deployRepository_mongo_def)
  moreover have "rq_minReplicas req = Some m \<and> rq_maxReplicas req = Some n \<and>
    fst (deployRepository_redis api sr req now) = Inr dr \<longrightarrow>
      d_minReplicas dr = m \<and> d_maxReplicas dr = n"
    using deployRepository_redis_created [of api sr req now dr] by auto
  moreover have "rq_minReplicas req = Some m \<and> rq_maxReplicas req = Some n \<and>
    fst (deployRepository_mongo api sm req now) = Inr dm \<longrightarrow>
      d_minReplicas dm = m \<and> d_maxReplicas dm = n"
    using deployRepository_mongo_created [of api sm req now dm] by auto
  ultimately show ?thesis by blast
qed

lemma fst_distributeToWorkers_redis:
  "fst (distributeToWorkers_redis s d ri now) = Inr (d\<lparr>d_status := ''active''\<rparr>)"
  using distributeToWorkers_complete
    [of d "\<lambda>workerId. Inr (workerKey (db s) workerId)" "\<lambda>d. setDeployment (d_id d) d" s ri now]
  by (simp add: distributeToWorkers_redis_def)

lemma fst_distributeToWorkers_mongo:
  "fst (distributeToWorkers_mongo s d ri now) = Inr (d\<lparr>d_status := ''active''\<rparr>)"
  using distributeToWorkers_complete
    [of d "\<lambda>workerId. Inr (findWorkerById (db s) workerId)" saveDeployment s ri now]
  by (simp add: distributeToWorkers_mongo_def)

lemma deployRepository_redis_success:
  assumes "validateGithubRepo api (rq_githubRepo req) = Some ri"
      and "filterActiveWorkers (map (workerKey (db s)) (workersSet (db s))) = Inr ws"
      and "\<not> int (length ws) < (case rq_minReplicas req of None \<Rightarrow> 1 | Some m \<Rightarrow> m)"
  shows "fst (deployRepository_redis api s req now) =
     Inr \<lparr>d_id = counter (db s) ''deployment'' + 1, d_githubRepo = rq_githubRepo req,
          d_userName = rq_userName req,
          d_minReplicas = (case rq_minReplicas req of None \<Rightarrow> 1 | Some m \<Rightarrow> m),
          d_maxReplicas = (case rq_maxReplicas req of None \<Rightarrow> 3 | Some m \<Rightarrow> m),
          d_status = ''active'', d_lastScaleUp = None, d_lastScaleDown = None,
          d_workers = initialWorkers ws (case rq_minReplicas req of None \<Rightarrow> 1 | Some m \<Rightarrow> m),
          d_createdAt = now\<rparr>"
  using assms
  by (simp add: deployRepository_redis_def Let_def getNextId_def fst_distributeToWorkers_redis)

lemma deployRepository_mongo_success:
  assumes "validateGithubRepo api (rq_githubRepo req) = Some ri"
      and "ws = mongoLimit (case rq_maxReplicas req of None \<Rightarrow> 3 | Some m \<Rightarrow> m)
             (sort_key cpuKey (filter eligible (Workers (db s))))"
      and "\<not> int (length ws) < (case rq_minReplicas req of None \<Rightarrow> 1 | Some m \<Rightarrow> m)"
  shows "fst (deployRepository_mongo api s req now) =
     Inr \<lparr>d_id = nextObjectId (db s), d_githubRepo = rq_githubRepo req,
          d_userName = rq_userName req,
          d_minReplicas = (case rq_minReplicas req of None \<Rightarrow> 1 | Some m \<Rightarrow> m),
          d_maxReplicas = (case rq_maxReplicas req of None \<Rightarrow> 3 | Some m \<Rightarrow> m),
          d_status = ''active'', d_lastScaleUp = None, d_lastScaleDown = None,
          d_workers = initialWorkers ws (case rq_minReplicas req of None \<Rightarrow> 1 | Some m \<Rightarrow> m),
          d_createdAt = now\<rparr>"
  using assms
  by (simp add: deployRepository_mongo_def Let_def newObjectId_def fst_distributeToWorkers_mongo)

lemma filterActiveWorkers_example:
  "filterActiveWorkers (map (workerKey (db redisOrchestrator)) (workersSet (db redisOrchestrator))) =
     Inr [workerA, workerB]"
  by (simp add: example_defs)

lemma eligible_example:
  "sort_key cpuKey (filter eligible (Workers (db mongoOrchestrator))) = [workerA, workerB]"
  by (simp add: example_defs eligible_def cpuKey_def)

lemma initialWorkers_example:
  "initialWorkers [workerA, workerB] 2 =
     [\<lparr>a_workerId = 1, a_replicaId = 1, a_status = ''pending''\<rparr>,
      \<lparr>a_workerId = 2, a_replicaId = 2, a_status = ''pending''\<rparr>]"
  by (simp add: initialWorkers_def slice0_def workerA_def workerB_def)

text \<open>Witness for C9: the example request with bounds 2 and 5 succeeds on both example
  stores.\<close>

theorem deployRepository_defaults_witness:
  "rq_minReplicas (exampleRequest\<lparr>rq_minReplicas := Some 2, rq_maxReplicas := Some 5\<rparr>) = Some 2 \<and>
   rq_maxReplicas (exampleRequest\<lparr>rq_minReplicas := Some 2, rq_maxReplicas := Some 5\<rparr>) = Some 5 \<and>
   fst (deployRepository_redis exampleApi redisOrchestrator
     (exampleRequest\<lparr>rq_minReplicas := Some 2, rq_maxReplicas := Some 5\<rparr>) 1700000000000) =
     Inr (createdDeployment 3) \<and>
   fst (deployRepository_mongo exampleApi mongoOrchestrator
     (exampleRequest\<lparr>rq_minReplicas := Some 2, rq_maxReplicas := Some 5\<rparr>) 1700000000000) =
     Inr (createdDeployment 10) \<and>
   d_minReplicas (createdDeployment 3) = 2 \<and> d_maxReplicas (createdDeployment 3) = 5 \<and>
   d_minReplicas (createdDeployment 10) = 2 \<and> d_maxReplicas (createdDeployment 10) = 5 \<and>
   deployRepository_redis exampleApi redisOrchestrator exampleRequest 1700000000000 =
     deployRepository_redis exampleApi redisOrchestrator
       (exampleRequest\<lparr>rq_minReplicas := Some 1\<rparr>) 1700000000000"
proof -
  let ?req = "exampleRequest\<lparr>rq_minReplicas := Some 2, rq_maxReplicas := Some 5\<rparr>"
  have v: "validateGithubRepo exampleApi (rq_githubRepo ?req) = Some exampleRepo"
    using validate_example by simp
  have r: "fst (deployRepository_redis exampleApi redisOrchestrator ?req 1700000000000) =
     Inr (createdDeployment 3)"
    using deployRepository_redis_success [OF v filterActiveWorkers_example, of 1700000000000]
    by (simp add: initialWorkers_example createdDeployment_def exampleRequest_def
        redisOrchestrator_def redisStore_def)
  have m: "fst (deployRepository_mongo exampleApi mongoOrchestrator ?req 1700000000000) =
     Inr (createdDeployment 10)"
  proof -
    have w: "[workerA, workerB] =
        mongoLimit (case rq_maxReplicas ?req of None \<Rightarrow> 3 | Some m \<Rightarrow> m)
          (sort_key cpuKey (filter eligible (Workers (db mongoOrchestrator))))"
      by (simp add: eligible_example mongoLimit_def)
    have l: "\<not> int (length [workerA, workerB]) <
        (case rq_minReplicas ?req of None \<Rightarrow> 1 | Some m \<Rightarrow> m)"
      by simp
    from deployRepository_mongo_success [OF v w l, of 1700000000000] show ?thesis
      by (simp add: initialWorkers_example createdDeployment_def exampleRequest_def
          mongoOrchestrator_def mongoStore_def)
  qed
  have q: "rq_minReplicas ?req = Some 2" "rq_maxReplicas ?req = Some 5"
    by simp_all
  have n: "exampleRequest\<lparr>rq_minReplicas := None\<rparr> = exampleRequest"
    by (simp add: exampleRequest_def)
  from deployRepository_defaults [of exampleApi redisOrchestrator exampleRequest 1700000000000
      mongoOrchestrator]
  have e: "deployRepository_redis exampleApi redisOrchestrator exampleRequest 1700000000000 =
     deployRepository_redis exampleApi redisOrchestrator
       (exampleRequest\<lparr>rq_minReplicas := Some 1\<rparr>) 1700000000000"
    unfolding n by blast
  from deployRepository_defaults [of exampleApi redisOrchestrator ?req 1700000000000
      mongoOrchestrator 2 5 "createdDeployment 3" "createdDeployment 10"] q r m
  have "d_minReplicas (createdDeployment 3) = 2 \<and> d_maxReplicas (createdDeployment 3) = 5 \<and>
    d_minReplicas (createdDeployment 10) = 2 \<and> d_maxReplicas (createdDeployment 10) = 5"
    by blast
  with q r m e show ?thesis by blast
qed

lemma filterActiveWorkers_Inr:
  "filterActiveWorkers ws = Inr xs \<Longrightarrow> xs = filter eligible (somes ws)"
proof (induction ws arbitrary: xs)
  case Nil
  then show ?case by simp
next
  case (Cons a ws)
  show ?case
  proof (cases a)
    case None
    with Cons show ?thesis by simp
  next
    case (Some w)
    show ?thesis
    proof (cases "w_status w = ''active''")
      case False
      with Some Cons have "xs = filter eligible (somes ws)" by simp
      moreover from False have "\<not> eligible w" by (simp add: eligible_def)
      ultimately show ?thesis using Some by simp
    next
      case True
      with Some Cons.prems obtain l rest where l: "w_currentLoad w = Some l"
        and rest: "filterActiveWorkers ws = Inr rest"
        and xs: "xs = (if cpuUsage l < 80 then w # rest else rest)"
        by (auto split: option.splits sum.splits if_splits)
      from Cons.IH [OF rest] have "rest = filter eligible (somes ws)" .
      moreover from True l have "eligible w = (cpuUsage l < 80)" by (simp add: eligible_def)
      ultimately show ?thesis using Some xs by simp
    qed
  qed
qed

lemma filterActiveWorkers_loaded:
  "\<forall>w\<in>set (somes ws). w_status w = ''active'' \<longrightarrow> w_currentLoad w \<noteq> None \<Longrightarrow>
   filterActiveWorkers ws = Inr (filter eligible (somes ws))"
proof (induction ws)
  case Nil
  then show ?case by simp
next
  case (Cons a ws)
  show ?case
  proof (cases a)
    case None
    with Cons show ?thesis by simp
  next
    case (Some w)
    with Cons have rest: "filterActiveWorkers ws = Inr (filter eligible (somes ws))" by simp
    show ?thesis
    proof (cases "w_status w = ''active''")
      case False
      then have "\<not> eligible w" by (simp add: eligible_def)
      with False Some rest show ?thesis by simp
    next
      case True
      with Some Cons.prems obtain l where l: "w_currentLoad w = Some l" by auto
      with True have "eligible w = (cpuUsage l < 80)" by (simp add: eligible_def)
      with True Some rest l show ?thesis by simp
    qed
  qed
qed

lemma deployRepository_redis_unchanged:
  assumes "int (length (filter eligible (storedWorkers (db s)))) <
             (case rq_minReplicas req of None \<Rightarrow> 1 | Some m \<Rightarrow> m)"
  shows "snd (deployRepository_redis api s req now) = s \<and>
         isl (fst (deployRepository_redis api s req now))"
proof (cases "filterActiveWorkers (map (workerKey (db s)) (workersSet (db s)))")
  case (Inl e)
  then show ?thesis
    by (simp add: deployRepository_redis_def Let_def split: option.splits)
next
  case (Inr xs)
  then have "xs = filter eligible (storedWorkers (db s))"
    using filterActiveWorkers_Inr by (simp add: storedWorkers_def)
  with Inr assms show ?thesis
    by (simp add: deployRepository_redis_def Let_def split: option.splits)
qed

lemma deployRepository_redis_insufficient:
  assumes "validateGithubRepo api (rq_githubRepo req) = Some ri"
      and "\<forall>w\<in>set (storedWorkers (db s)). w_status w = ''active'' \<longrightarrow> w_currentLoad w \<noteq> None"
      and "int (length (filter eligible (storedWorkers (db s)))) <
             (case rq_minReplicas req of None \<Rightarrow> 1 | Some m \<Rightarrow> m)"
  shows "deployRepository_redis api s req now =
     (Inl (InsufficientWorkers (case rq_minReplicas req of None \<Rightarrow> 1 | Some m \<Rightarrow> m)
        (length (filter eligible (storedWorkers (db s))))), s)"
proof -
  from assms(2)
  have "filterActiveWorkers (map (workerKey (db s)) (workersSet (db s))) =
     Inr (filter eligible (storedWorkers (db s)))"
    unfolding storedWorkers_def by (rule filterActiveWorkers_loaded)
  with assms(1,3) show ?thesis
    by (simp add: deployRepository_redis_def Let_def)
qed

lemma length_mongoLimit: "length (mongoLimit n xs) \<le> length xs"
  by (simp add: mongoLimit_def)

lemma deployRepository_mongo_unchanged:
  assumes "int (length (filter eligible (Workers (db s)))) <
             (case rq_minReplicas req of None \<Rightarrow> 1 | Some m \<Rightarrow> m)"
  shows "snd (deployRepository_mongo api s req now) = s \<and>
         isl (fst (deployRepository_mongo api s req now))"
proof -
  let ?ws = "mongoLimit (case rq_maxReplicas req of None \<Rightarrow> 3 | Some m \<Rightarrow> m)
               (sort_key cpuKey (filter eligible (Workers (db s))))"
  have "length ?ws \<le> length (filter eligible (Workers (db s)))"
    using length_mongoLimit [of _ "sort_key cpuKey (filter eligible (Workers (db s)))"] by simp
  with assms have "int (length ?ws) < (case rq_minReplicas req of None \<Rightarrow> 1 | Some m \<Rightarrow> m)"
    by linarith
  then show ?thesis
    by (simp add: deployRepository_mongo_def Let_def split: option.splits)
qed

lemma deployRepository_mongo_insufficient:
  assumes "validateGithubRepo api (rq_githubRepo req) = Some ri"
      and "int (length (filter eligible (Workers (db s)))) <
             (case rq_minReplicas req of None \<Rightarrow> 1 | Some m \<Rightarrow> m)"
  shows "deployRepository_mongo api s req now =
     (Inl (InsufficientWorkers (case rq_minReplicas req of None \<Rightarrow> 1 | Some m \<Rightarrow> m)
        (length (mongoLimit (case rq_maxReplicas req of None \<Rightarrow> 3 | Some m \<Rightarrow> m)
           (sort_key cpuKey (filter eligible (Workers (db s))))))), s)"
proof -
  let ?ws = "mongoLimit (case rq_maxReplicas req of None \<Rightarrow> 3 | Some m \<Rightarrow> m)
               (sort_key cpuKey (filter eligible (Workers (db s))))"
  have "length ?ws \<le> length (filter eligible (Workers (db s)))"
    using length_mongoLimit [of _ "sort_key cpuKey (filter eligible (Workers (db s)))"] by simp
  with assms(2) have "int (length ?ws) < (case rq_minReplicas req of None \<Rightarrow> 1 | Some m \<Rightarrow> m)"
    by linarith
  with assms(1) show ?thesis
    by (simp add: deployRepository_mongo_def Let_def)
qed

lemma freshRedis_workers:
  "workersSet (db freshRedis) = [1] \<and>
   workerKey (db freshRedis) 1 =
     Some \<lparr>w_id = 1, w_hostname = ''host-a'', w_socketId = ''sock-1'', w_status = ''active'',
           w_lastHeartbeat = 1700000000000, w_currentLoad = None\<rparr>"
  by (simp add: freshRedis_def emptyRedis_def registerWorker_redis_def getNextId_def
      setWorker_def sadd_def Let_def)

lemma freshMongo_workers:
  "Workers (db freshMongo) =
     [\<lparr>w_id = 0, w_hostname = ''host-a'', w_socketId = ''sock-1'', w_status = ''active'',
       w_lastHeartbeat = 1700000000000, w_currentLoad = None\<rparr>]"
  by (simp add: freshMongo_def emptyMongo_def registerWorker_mongo_def newObjectId_def Let_def)

text \<open>
  Claim C5 says that a deploy request fails with \<^verbatim>\<open>InsufficientWorkers\<close> and leaves
  the store unchanged when fewer than \<^verbatim>\<open>minReplicas\<close> workers are active with a load
  below 80. The store is unchanged in both orchestrators (lemmas above), and the MongoDB
  one answers \<^verbatim>\<open>InsufficientWorkers\<close>. The Redis one, asked right after a worker
  registered and before that worker's first status report, has no eligible worker and
  answers with a TypeError from \<^verbatim>\<open>worker.currentLoad.cpuUsage\<close>.
\<close>

theorem deployRepository_redis_typeError:
  "filter eligible (storedWorkers (db freshRedis)) = [] \<and>
   deployRepository_redis exampleApi freshRedis exampleRequest 1700000005000 =
     (Inl TypeError, freshRedis) \<and>
   deployRepository_mongo exampleApi freshMongo exampleRequest 1700000005000 =
     (Inl (InsufficientWorkers 1 0), freshMongo)"
proof -
  have a: "filter eligible (storedWorkers (db freshRedis)) = []"
    using freshRedis_workers by (simp add: storedWorkers_def eligible_def)
  have b: "filterActiveWorkers (map (workerKey (db freshRedis)) (workersSet (db freshRedis))) =
     Inl TypeError"
    using freshRedis_workers by simp
  have c: "deployRepository_redis exampleApi freshRedis exampleRequest 1700000005000 =
     (Inl TypeError, freshRedis)"
    using validate_example b by (simp add: deployRepository_redis_def Let_def)
  have d: "int (length (filter eligible (Workers (db freshMongo)))) <
     (case rq_minReplicas exampleRequest of None \<Rightarrow> 1 | Some m \<Rightarrow> m)"
    by (simp add: freshMongo_workers eligible_def exampleRequest_def)
  have e: "deployRepository_mongo exampleApi freshMongo exampleRequest 1700000005000 =
     (Inl (InsufficientWorkers 1 0), freshMongo)"
    using deployRepository_mongo_insufficient [OF validate_example d, of 1700000005000]
    by (simp add: freshMongo_workers eligible_def exampleRequest_def mongoLimit_def)
  from a c e show ?thesis by blast
qed



section \<open>Scale-up without an available worker\<close>

lemma findAvailableWorkerIn_none:
  "filter eligible (somes (map (workerKey r) ids)) = [] \<Longrightarrow>
   findAvailableWorkerIn r ids \<noteq> Inr (Some w)"
proof (induction ids)
  case Nil
  then show ?case by simp
next
  case (Cons i ids)
  show ?case
  proof (cases "workerKey r i")
    case None
    with Cons show ?thesis by simp
  next
    case (Some x)
    with Cons.prems have ne: "\<not> eligible x"
      and rest: "filter eligible (somes (map (workerKey r) ids)) = []"
      by (simp_all split: if_splits)
    from Cons.IH [OF rest] have ih: "findAvailableWorkerIn r ids \<noteq> Inr (Some w)" .
    from ne have "w_status x = ''active'' \<Longrightarrow> w_currentLoad x = Some l \<Longrightarrow> \<not> cpuUsage l < 80" for l
      by (simp add: eligible_def)
    with Some ih show ?thesis by (auto split: option.splits)
  qed
qed

lemma scaleUp_redis_no_worker:
  assumes "filter eligible (storedWorkers (db s)) = []"
  shows "db (scaleUp_redis s d now) = db s \<and> emitted (scaleUp_redis s d now) = emitted s \<and>
         socketWorkerId (scaleUp_redis s d now) = socketWorkerId s"
proof -
  have "findAvailableWorker_redis (db s) \<noteq> Inr (Some w)" for w
    using assms findAvailableWorkerIn_none
    by (simp add: findAvailableWorker_redis_def storedWorkers_def)
  then show ?thesis
    by (auto simp: scaleUp_redis_def Let_def consoleLog_def split: sum.splits option.splits)
qed

lemma findAvailableWorker_mongo_none:
  "filter eligible (Workers m) = [] \<Longrightarrow> findAvailableWorker_mongo m = None"
  by (simp add: findAvailableWorker_mongo_def)

lemma scaleUp_mongo_no_worker:
  assumes "filter eligible (Workers (db s)) = []"
  shows "db (scaleUp_mongo s d now) = db s \<and> emitted (scaleUp_mongo s d now) = emitted s \<and>
         socketWorkerId (scaleUp_mongo s d now) = socketWorkerId s"
  using findAvailableWorker_mongo_none [OF assms]
  by (simp add: scaleUp_mongo_def Let_def consoleLog_def)

lemma cooldownOver_redis_later:
  "cooldownOver_redis t now c \<Longrightarrow> now \<le> later \<Longrightarrow> cooldownOver_redis t later c"
  by (auto simp: cooldownOver_redis_def split: option.splits)

lemma cooldownOver_mongo_later:
  "cooldownOver_mongo t now c \<Longrightarrow> now \<le> later \<Longrightarrow> cooldownOver_mongo t later c"
  by (auto simp: cooldownOver_mongo_def split: option.splits)

lemma checkAndScale_mongo_up_iff:
  "LogScalingUp (d_id d) \<in> set (newConsole s (checkAndScale_mongo s d now)) \<longleftrightarrow>
     avgCpuLoad (filter (\<lambda>r. r_status r = ''active'')
        (filter (\<lambda>r. r_deploymentId r = d_id d) (Replicas (db s)))) > cpuThreshold \<and>
     int (length (filter (\<lambda>r. r_deploymentId r = d_id d) (Replicas (db s)))) < d_maxReplicas d \<and>
     cooldownOver_mongo (d_lastScaleUp d) now scaleUpCooldown"
  unfolding checkAndScale_mongo_newConsole Let_def by auto

lemma checkAndScale_mongo_up_db:
  assumes "LogScalingUp (d_id d) \<in> set (newConsole s (checkAndScale_mongo s d now))"
  shows "checkAndScale_mongo s d now =
     scaleUp_mongo (consoleLog (LogAverageCpu (d_id d)
       (avgCpuLoad (filter (\<lambda>r. r_status r = ''active'')
          (filter (\<lambda>r. r_deploymentId r = d_id d) (Replicas (db s)))))) s) d now"
  using assms [unfolded checkAndScale_mongo_up_iff]
  by (simp add: checkAndScale_mongo_def Let_def)

lemma checkAndScale_mongo_retry:
  assumes none: "filter eligible (Workers (db s)) = []"
      and up: "LogScalingUp (d_id d) \<in> set (newConsole s (checkAndScale_mongo s d now))"
      and later: "now \<le> later"
  shows "db (checkAndScale_mongo s d now) = db s \<and>
         emitted (checkAndScale_mongo s d now) = emitted s \<and>
         LogScalingUp (d_id d) \<in> set (newConsole (checkAndScale_mongo s d now)
            (checkAndScale_mongo (checkAndScale_mongo s d now) d later))"
proof -
  let ?s1 = "consoleLog (LogAverageCpu (d_id d)
       (avgCpuLoad (filter (\<lambda>r. r_status r = ''active'')
          (filter (\<lambda>r. r_deploymentId r = d_id d) (Replicas (db s)))))) s"
  have eq: "checkAndScale_mongo s d now = scaleUp_mongo ?s1 d now"
    using up by (rule checkAndScale_mongo_up_db)
  have "filter eligible (Workers (db ?s1)) = []" using none by simp
  from scaleUp_mongo_no_worker [OF this, of d now]
  have same: "db (checkAndScale_mongo s d now) = db s"
    "emitted (checkAndScale_mongo s d now) = emitted s"
    unfolding eq by simp_all
  from up have c: "avgCpuLoad (filter (\<lambda>r. r_status r = ''active'')
        (filter (\<lambda>r. r_deploymentId r = d_id d) (Replicas (db s)))) > cpuThreshold"
     "int (length (filter (\<lambda>r. r_deploymentId r = d_id d) (Replicas (db s)))) < d_maxReplicas d"
     "cooldownOver_mongo (d_lastScaleUp d) now scaleUpCooldown"
    unfolding checkAndScale_mongo_up_iff by simp_all
  from c(3) later have "cooldownOver_mongo (d_lastScaleUp d) later scaleUpCooldown"
    by (rule cooldownOver_mongo_later)
  with c(1,2) same(1)
  have "LogScalingUp (d_id d) \<in> set (newConsole (checkAndScale_mongo s d now)
            (checkAndScale_mongo (checkAndScale_mongo s d now) d later))"
    unfolding checkAndScale_mongo_up_iff by simp
  with same show ?thesis by simp
qed

lemma checkAndScale_redis_up_iff:
  "LogScalingUp (d_id d) \<in> set (newConsole s (checkAndScale_redis s d now)) \<longleftrightarrow>
     (\<exists>parsed. those (map (replicaKey (db s)) (replicasSet (db s) (d_id d))) = Some parsed \<and>
     avgCpuLoad (filter (\<lambda>r. r_status r = ''active'') parsed) > cpuThreshold \<and>
     int (length (replicasSet (db s) (d_id d))) < d_maxReplicas d \<and>
     cooldownOver_redis (d_lastScaleUp d) now scaleUpCooldown)"
proof (cases "those (map (replicaKey (db s)) (replicasSet (db s) (d_id d)))")
  case None
  then show ?thesis
    by (simp add: checkAndScale_redis_def Let_def newConsole_def)
next
  case (Some parsed)
  show ?thesis
    unfolding checkAndScale_redis_newConsole [OF Some] using Some by auto
qed

lemma checkAndScale_redis_retry:
  assumes none: "filter eligible (storedWorkers (db s)) = []"
      and up: "LogScalingUp (d_id d) \<in> set (newConsole s (checkAndScale_redis s d now))"
      and later: "now \<le> later"
  shows "db (checkAndScale_redis s d now) = db s \<and>
         emitted (checkAndScale_redis s d now) = emitted s \<and>
         LogScalingUp (d_id d) \<in> set (newConsole (checkAndScale_redis s d now)
            (checkAndScale_redis (checkAndScale_redis s d now) d later))"
proof -
  from up obtain parsed where
    p: "those (map (replicaKey (db s)) (replicasSet (db s) (d_id d))) = Some parsed"
    and c: "avgCpuLoad (filter (\<lambda>r. r_status r = ''active'') parsed) > cpuThreshold"
      "int (length (replicasSet (db s) (d_id d))) < d_maxReplicas d"
      "cooldownOver_redis (d_lastScaleUp d) now scaleUpCooldown"
    unfolding checkAndScale_redis_up_iff by blast
  let ?s1 = "consoleLog (LogAverageCpu (d_id d)
       (avgCpuLoad (filter (\<lambda>r. r_status r = ''active'') parsed))) s"
  have eq: "checkAndScale_redis s d now = scaleUp_redis ?s1 d now"
    using p c by (simp add: checkAndScale_redis_def Let_def)
  have "filter eligible (storedWorkers (db ?s1)) = []" using none by simp
  from scaleUp_redis_no_worker [OF this, of d now]
  have same: "db (checkAndScale_redis s d now) = db s"
    "emitted (checkAndScale_redis s d now) = emitted s"
    unfolding eq by simp_all
  from c(3) later have "cooldownOver_redis (d_lastScaleUp d) later scaleUpCooldown"
    by (rule cooldownOver_redis_later)
  with p c(1,2) same(1)
  have "LogScalingUp (d_id d) \<in> set (newConsole (checkAndScale_redis s d now)
            (checkAndScale_redis (checkAndScale_redis s d now) d later))"
    unfolding checkAndScale_redis_up_iff by simp
  with same show ?thesis by simp
qed

text \<open>
  Claim C10. A scale-up attempted while no stored worker is active with a load below 80
  leaves the store and the sent messages as they were (no replica, no assignment, no
  stamp); so when \<^verbatim>\<open>checkAndScale\<close> decided that scale-up, a later
  \<^verbatim>\<open>checkAndScale\<close> of the same deployment on the resulting state decides it again.
\<close>

theorem scaleUp_without_worker:
  "(filter eligible (storedWorkers (db sr)) = [] \<longrightarrow>
      db (scaleUp_redis sr d now) = db sr \<and>
      emitted (scaleUp_redis sr d now) = emitted sr) \<and>
   (filter eligible (Workers (db sm)) = [] \<longrightarrow>
      db (scaleUp_mongo sm d now) = db sm \<and>
      emitted (scaleUp_mongo sm d now) = emitted sm) \<and>
   (filter eligible (storedWorkers (db sr)) = [] \<and>
    LogScalingUp (d_id d) \<in> set (newConsole sr (checkAndScale_redis sr d now)) \<and>
    now \<le> later \<longrightarrow>
      db (checkAndScale_redis sr d now) = db sr \<and>
      LogScalingUp (d_id d) \<in> set (newConsole (checkAndScale_redis sr d now)
         (checkAndScale_redis (checkAndScale_redis sr d now) d later))) \<and>
   (filter eligible (Workers (db sm)) = [] \<and>
    LogScalingUp (d_id d) \<in> set (newConsole sm (checkAndScale_mongo sm d now)) \<and>
    now \<le> later \<longrightarrow>
      db (checkAndScale_mongo sm d now) = db sm \<and>
      LogScalingUp (d_id d) \<in> set (newConsole (checkAndScale_mongo sm d now)
         (checkAndScale_mongo (checkAndScale_mongo sm d now) d later)))"
  using scaleUp_redis_no_worker [of sr d now] scaleUp_mongo_no_worker [of sm d now]
    checkAndScale_redis_retry [of sr d now later] checkAndScale_mongo_retry [of sm d now later]
  by blast

text \<open>Witness for C10: the example stores with both workers at 85 percent, two ticks
  30 s apart.\<close>

theorem scaleUp_without_worker_witness:
  "filter eligible (storedWorkers (db busyRedis)) = [] \<and>
   filter eligible (Workers (db busyMongo)) = [] \<and>
   LogScalingUp 1 \<in> set (newConsole busyRedis
      (checkAndScale_redis busyRedis webDeployment 1700000000000)) \<and>
   LogScalingUp 1 \<in> set (newConsole busyMongo
      (checkAndScale_mongo busyMongo webDeployment 1700000000000)) \<and>
   (1700000000000 :: int) \<le> 1700000030000 \<and>
   db (scaleUp_redis busyRedis webDeployment 1700000000000) = db busyRedis \<and>
   emitted (scaleUp_redis busyRedis webDeployment 1700000000000) = emitted busyRedis \<and>
   db (scaleUp_mongo busyMongo webDeployment 1700000000000) = db busyMongo \<and>
   emitted (scaleUp_mongo busyMongo webDeployment 1700000000000) = emitted busyMongo \<and>
   LogScalingUp 1 \<in> set (newConsole (checkAndScale_redis busyRedis webDeployment 1700000000000)
      (checkAndScale_redis (checkAndScale_redis busyRedis webDeployment 1700000000000)
         webDeployment 1700000030000)) \<and>
   LogScalingUp 1 \<in> set (newConsole (checkAndScale_mongo busyMongo webDeployment 1700000000000)
      (checkAndScale_mongo (checkAndScale_mongo busyMongo webDeployment 1700000000000)
         webDeployment 1700000030000))"
proof -
  have i: "d_id webDeployment = 1" by (simp add: webDeployment_def)
  have r: "filter eligible (storedWorkers (db busyRedis)) = []"
    by (simp add: busyRedis_def busyLoad_def storedWorkers_def eligible_def example_defs)
  have m: "filter eligible (Workers (db busyMongo)) = []"
    by (simp add: busyMongo_def busyLoad_def eligible_def example_defs)
  have ur: "LogScalingUp (d_id webDeployment) \<in> set (newConsole busyRedis
      (checkAndScale_redis busyRedis webDeployment 1700000000000))"
    unfolding checkAndScale_redis_up_iff
    by (simp add: busyRedis_def example_defs avgCpuLoad_mean cpuOrZero_def cpuThreshold_def
        cooldownOver_redis_def)
  have um: "LogScalingUp (d_id webDeployment) \<in> set (newConsole busyMongo
      (checkAndScale_mongo busyMongo webDeployment 1700000000000))"
    unfolding checkAndScale_mongo_up_iff
    by (simp add: busyMongo_def example_defs avgCpuLoad_mean cpuOrZero_def cpuThreshold_def
        cooldownOver_mongo_def)
  have l: "(1700000000000 :: int) \<le> 1700000030000" by simp
  from scaleUp_without_worker [of busyRedis webDeployment 1700000000000 busyMongo 1700000030000]
    r m ur um l
  show ?thesis unfolding i by blast
qed


end
